theory Spec2Isabelle
  imports Complex_Main
begin

section \<open>Validation runner: round-robin assignment of prompts\<close>

text \<open>
  \<^verbatim>\<open>Trainer.validate\<close> (trainer.py, lines 808-950).  The method returns at once
  when no validation prompt is configured; otherwise it walks
  \<^verbatim>\<open>range(num_validation_samples)\<close> and skips every index with
  \<^verbatim>\<open>i % accelerator.num_processes != accelerator.process_index\<close>.  For the indices
  that are not skipped it calls the model family's \<^verbatim>\<open>validation\<close> capability.
  The inner \<^verbatim>\<open>for i, (...) in enumerate(validation_artifacts)\<close> rebinds \<^verbatim>\<open>i\<close>,
  which does not change what \<^verbatim>\<open>range\<close> yields next, and \<^verbatim>\<open>i\<close> is not read
  again in the body after that point.

  \<open>validate_loop\<close> is the \<^verbatim>\<open>for\<close> loop; it returns the indices for which the
  generation call is made, in the order of the calls.
\<close>

fun validate_loop :: "nat \<Rightarrow> nat \<Rightarrow> nat list \<Rightarrow> nat list" where
  "validate_loop num_processes process_index [] = []"
| "validate_loop num_processes process_index (i # rest) =
     (if i mod num_processes \<noteq> process_index
      then validate_loop num_processes process_index rest
      else i # validate_loop num_processes process_index rest)"

definition validate :: "nat \<Rightarrow> nat \<Rightarrow> nat \<Rightarrow> nat list" where
  "validate num_processes process_index num_validation_samples =
     (if num_validation_samples = 0 then []
      else validate_loop num_processes process_index [0..<num_validation_samples])"

section \<open>Errors, configuration and the trainer's observable state\<close>

text \<open>
  Every \<^verbatim>\<open>raise\<close> of the modelled methods is a value of \<open>error\<close>; the string is
  the message (for \<^verbatim>\<open>KeyError\<close>, \<^verbatim>\<open>UnboundLocalError\<close> and \<^verbatim>\<open>AttributeError\<close>,
  the key or the name).
\<close>

datatype error =
    ValueError string
  | KeyError string
  | UnboundLocalError string
  | AttributeError string
  | TypeError string
  | IndexError
  | ZeroDivisionError

text \<open>
  The fields of \<^verbatim>\<open>Args\<close> that the modelled methods read.  \<^verbatim>\<open>Args\<close> itself is
  declared in \<^verbatim>\<open>args.py\<close>; Python integers are \<open>int\<close>, floats are idealised
  as \<open>real\<close>, \<^verbatim>\<open>Optional[int]\<close> is \<open>int option\<close>.
\<close>

record args =
  precompute_conditions :: bool
  batch_size :: int
  caption_dropout_p :: real
  caption_dropout_technique :: string
  mixed_precision :: string
  flow_weighting_scheme :: string
  gradient_accumulation_steps :: int
  checkpointing_steps :: int
  validation_every_n_steps :: "int option"
  validation_every_n_epochs :: "int option"
  train_steps :: "int option"
  train_epochs :: int

text \<open>
  A precomputed artifact is named after the format strings of lines 271 and 320:
  \<^verbatim>\<open>conditions-{i}-{index}.pt\<close> and \<^verbatim>\<open>latents-{process_index}-{index}.pt\<close>.
  The two numbers are kept as they are instead of being printed into a string.
\<close>

datatype artifact = Conditions nat nat | Latents nat nat

fun is_conditions :: "artifact \<Rightarrow> bool" where
  "is_conditions (Conditions i k) = True"
| "is_conditions (Latents r k) = False"

fun is_latents :: "artifact \<Rightarrow> bool" where
  "is_latents (Conditions i k) = False"
| "is_latents (Latents r k) = True"

text \<open>
  What a method does to the world outside the trainer object is recorded as a list
  of events, in program order.  Debug logging, the progress bar, the memory
  statistics and \<^verbatim>\<open>requires_grad_(False)\<close> are left out.
\<close>

datatype event =
    LogInfo string
  | LogWarning string
  | LoadConditionModels
  | LoadLatentModels
  | MoveComponentsToDevice
  | Mkdir string
  | PrepareConditions nat string
  | PrepareLatents nat
  | TorchSave artifact
  | DeleteComponents
  | WaitForEveryone

datatype dataloader = BucketedDataset | PrecomputedDataset int

text \<open>
  \<open>files\<close> is the listing of \<^verbatim>\<open><data_root>/precomputed\<close> (both subdirectories), a
  list without repetitions; \<open>dataloader\<close> is \<^verbatim>\<open>self.dataloader\<close>; \<open>events\<close> is the
  record of effects so far.
\<close>

record trainer =
  files :: "artifact list"
  dataloader :: dataloader
  events :: "event list"

definition bind_err :: "error + 'a \<Rightarrow> ('a \<Rightarrow> error + 'b) \<Rightarrow> error + 'b" where
  "bind_err m f = (case m of Inl e \<Rightarrow> Inl e | Inr x \<Rightarrow> f x)"

definition emit :: "event list \<Rightarrow> trainer \<Rightarrow> trainer" where
  "emit es t = t\<lparr>events := events t @ es\<rparr>"

text \<open>\<^verbatim>\<open>torch.save(obj, filename)\<close>: creates the file, or overwrites it in place.\<close>

definition torch_save :: "artifact \<Rightarrow> trainer \<Rightarrow> trainer" where
  "torch_save f t =
     emit [TorchSave f] (t\<lparr>files := (if f \<in> set (files t) then files t else files t @ [f])\<rparr>)"

section \<open>Precomputation cache manager\<close>

text \<open>
  Modelled from the spec: \<^verbatim>\<open>should_perform_precomputation\<close> lives in
  \<^verbatim>\<open>utils/data_utils.py\<close>, which is not among the sources.  The spec (4.1, and the
  invariant of PrecomputedArtifact) calls a cache complete when the artifact count of
  the conditions directory and that of the latents directory both equal the dataset
  length; the function answers whether precomputation still has to run.
\<close>

definition should_perform_precomputation :: "artifact list \<Rightarrow> nat \<Rightarrow> bool" where
  "should_perform_precomputation fs dataset_len \<longleftrightarrow>
     \<not> (length (filter is_conditions fs) = dataset_len
        \<and> length (filter is_latents fs) = dataset_len)"

text \<open>
  A dataset sample is its prompt and its video; the video is opaque here.  The first
  loop is lines 251-274, the second lines 303-323.  Both walk
  \<^verbatim>\<open>enumerate(self.dataset)\<close>, skip the samples of other processes with
  \<^verbatim>\<open>continue\<close>, and count the samples they keep in \<^verbatim>\<open>index\<close>.
\<close>

type_synonym 'v sample = "string \<times> 'v"

fun conditions_loop ::
  "nat \<Rightarrow> nat \<Rightarrow> nat \<Rightarrow> (nat \<times> 'v sample) list \<Rightarrow> trainer \<Rightarrow> trainer" where
  "conditions_loop num_processes process_index index [] t = t"
| "conditions_loop num_processes process_index index ((i, data) # rest) t =
     (if i mod num_processes \<noteq> process_index
      then conditions_loop num_processes process_index index rest t
      else conditions_loop num_processes process_index (index + 1) rest
             (torch_save (Conditions i index) (emit [PrepareConditions i (fst data)] t)))"

fun latents_loop ::
  "nat \<Rightarrow> nat \<Rightarrow> nat \<Rightarrow> (nat \<times> 'v sample) list \<Rightarrow> trainer \<Rightarrow> trainer" where
  "latents_loop num_processes process_index index [] t = t"
| "latents_loop num_processes process_index index ((i, data) # rest) t =
     (if i mod num_processes \<noteq> process_index
      then latents_loop num_processes process_index index rest t
      else latents_loop num_processes process_index (index + 1) rest
             (torch_save (Latents process_index index) (emit [PrepareLatents i] t)))"

text \<open>
  \<^verbatim>\<open>Trainer.prepare_precomputations\<close> (lines 177-341).  The result is the exception
  that left the method, if any, and the trainer as the method left it.
\<close>

definition prepare_precomputations ::
  "args \<Rightarrow> nat \<Rightarrow> nat \<Rightarrow> 'v sample list \<Rightarrow> trainer \<Rightarrow> error option \<times> trainer" where
  "prepare_precomputations a num_processes process_index dataset t0 =
     (if \<not> precompute_conditions a then (None, t0)
      else
        let t1 = emit [LogInfo ''Initializing precomputations''] t0 in
        if batch_size a \<noteq> 1
        then (Some (ValueError
                ''Precomputation is only supported with batch size 1. This will be supported in future.''),
              t1)
        else if \<not> should_perform_precomputation (files t1) (length dataset)
        then (None,
              (emit [LogInfo ''Precomputed conditions and latents found. Loading precomputed data.''] t1)
                \<lparr>dataloader := PrecomputedDataset (batch_size a)\<rparr>)
        else
          let t2 = emit [LogInfo ''Precomputed conditions and latents not found. Running precomputation.'',
                         LoadConditionModels, MoveComponentsToDevice] t1;
              t3 = (if caption_dropout_p a > 0 \<and> caption_dropout_technique a = ''empty''
                    then emit [LogWarning
                      ''Caption dropout is not supported with precomputation yet. This will be supported in the future.'']
                      t2
                    else t2);
              t4 = emit [Mkdir ''conditions'', Mkdir ''latents''] t3;
              t5 = conditions_loop num_processes process_index 0 (enumerate 0 dataset) t4;
              t6 = emit [DeleteComponents, LoadLatentModels, MoveComponentsToDevice] t5;
              t7 = latents_loop num_processes process_index 0 (enumerate 0 dataset) t6;
              t8 = emit [DeleteComponents, WaitForEveryone, LogInfo ''Precomputation complete''] t7
          in (None, t8\<lparr>dataloader := PrecomputedDataset (batch_size a)\<rparr>))"

text \<open>The events that encode, load an encoder or write an artifact.\<close>

fun encoding_work :: "event \<Rightarrow> bool" where
  "encoding_work LoadConditionModels = True"
| "encoding_work LoadLatentModels = True"
| "encoding_work (PrepareConditions i p) = True"
| "encoding_work (PrepareLatents i) = True"
| "encoding_work (TorchSave f) = True"
| "encoding_work e = False"

subsection \<open>The first invocations of all processes\<close>

text \<open>
  The processes of ranks \<open>rs\<close> each call \<^verbatim>\<open>prepare_precomputations\<close> once, one rank
  after the other, on the same directory; each starts with the live dataloader and
  no event recorded.  The result is the listing of the directory afterwards.
\<close>

fun all_ranks_precompute ::
  "args \<Rightarrow> nat \<Rightarrow> nat list \<Rightarrow> 'v sample list \<Rightarrow> artifact list \<Rightarrow> artifact list" where
  "all_ranks_precompute a num_processes [] dataset fs = fs"
| "all_ranks_precompute a num_processes (r # rs) dataset fs =
     all_ranks_precompute a num_processes rs dataset
       (files (snd (prepare_precomputations a num_processes r dataset
          \<lparr>files = fs, dataloader = BucketedDataset, events = []\<rparr>)))"

section \<open>Adapter persistence: the load hook\<close>

text \<open>
  A parameter of a module: its name, whether it is trained, the width it is stored
  at, and its entries (idealised as reals).  A model object is its class and its
  parameters; \<^verbatim>\<open>isinstance\<close> is read as equality of classes, and
  \<^verbatim>\<open>unwrap_model\<close> as the identity.
\<close>

datatype torch_dtype = Float32 | Float16 | BFloat16

record param =
  name :: string
  requires_grad :: bool
  dtype :: torch_dtype
  data :: "real list"

record model =
  cls :: string
  params :: "param list"

text \<open>
  \<^verbatim>\<open>diffusers.training_utils.cast_training_params(model, dtype=torch.float32)\<close>, a
  library function: every parameter with \<^verbatim>\<open>requires_grad\<close> is replaced by its
  conversion to \<^verbatim>\<open>dtype\<close>; the others are not touched.
\<close>

definition cast_training_params :: "model \<Rightarrow> torch_dtype \<Rightarrow> model" where
  "cast_training_params m d =
     m\<lparr>params := map (\<lambda>p. if requires_grad p then p\<lparr>dtype := d\<rparr> else p) (params m)\<rparr>"

text \<open>
  \<^verbatim>\<open>peft.set_peft_model_state_dict\<close>, a library function: the tensors of the state
  dictionary are copied into the parameters of the same name; a copy keeps the
  parameter's own width and its \<^verbatim>\<open>requires_grad\<close>.  Keys that match no parameter
  are reported back and only logged by the hook.
\<close>

definition set_peft_model_state_dict :: "model \<Rightarrow> (string \<rightharpoonup> real list) \<Rightarrow> model" where
  "set_peft_model_state_dict m sd =
     m\<lparr>params := map (\<lambda>p. case sd (name p) of None \<Rightarrow> p | Some v \<Rightarrow> p\<lparr>data := v\<rparr>) (params m)\<rparr>"

text \<open>
  The \<^verbatim>\<open>while len(models) > 0: model = models.pop()\<close> loop of lines 425-435.
  \<^verbatim>\<open>pop()\<close> takes the last element, so the loop is a recursion over the reversed
  list; the third argument \<open>transformer'\<close> is \<^verbatim>\<open>transformer_\<close>, which is unbound before the first
  assignment.
\<close>

fun pop_models :: "string \<Rightarrow> model list \<Rightarrow> model option \<Rightarrow> error + model option" where
  "pop_models transformer_cls [] transformer' = Inr transformer'"
| "pop_models transformer_cls (m # rest) transformer' =
     (if cls m = transformer_cls
      then pop_models transformer_cls rest (Some m)
      else Inl (ValueError (''Unexpected save model: '' @ cls m)))"

text \<open>
  \<^verbatim>\<open>load_model_hook(models, input_dir)\<close> (lines 423-463).  \<open>deepspeed\<close> is
  \<^verbatim>\<open>accelerator.distributed_type == DistributedType.DEEPSPEED\<close>; \<open>fresh\<close> is the
  model that \<^verbatim>\<open>from_pretrained\<close> followed by \<^verbatim>\<open>add_adapter\<close> builds on that path;
  \<open>transformer_state_dict\<close> is the dictionary of line 443.  The result is the model
  bound to \<^verbatim>\<open>transformer_\<close> when the hook returns.
\<close>

definition load_model_hook ::
  "args \<Rightarrow> bool \<Rightarrow> string \<Rightarrow> model \<Rightarrow> (string \<rightharpoonup> real list) \<Rightarrow> model list \<Rightarrow> error + model" where
  "load_model_hook a deepspeed transformer_cls fresh transformer_state_dict models =
     (case (if \<not> deepspeed then pop_models transformer_cls (rev models) None
            else Inr (Some fresh)) of
        Inl e \<Rightarrow> Inl e
      | Inr None \<Rightarrow> Inl (UnboundLocalError ''transformer_'')
      | Inr (Some transformer') \<Rightarrow>
          let loaded = set_peft_model_state_dict transformer' transformer_state_dict in
          Inr (if mixed_precision a = ''fp16''
               then cast_training_params loaded Float32
               else loaded))"

section \<open>The training step\<close>

subsection \<open>Tensors and dictionaries\<close>

text \<open>
  A tensor with a batch axis is the list of its examples, each example flattened
  into the list of its entries; floats are idealised as reals.  The values of the
  condition dictionaries are float tensors, boolean tensors, or plain integers
  (such as a frame count).
\<close>

datatype pyval = FloatTensor "real list list" | BoolTensor "bool list list" | PyInt int

type_synonym conditions = "string \<rightharpoonup> pyval"

definition lookup :: "conditions \<Rightarrow> string \<Rightarrow> error + pyval" where
  "lookup d k = (case d k of None \<Rightarrow> Inl (KeyError k) | Some v \<Rightarrow> Inr v)"

fun as_float :: "pyval \<Rightarrow> error + real list list" where
  "as_float (FloatTensor rows) = Inr rows"
| "as_float (BoolTensor rows) = Inl (TypeError ''expected a float tensor'')"
| "as_float (PyInt n) = Inl (TypeError ''expected a float tensor'')"

text \<open>
  \<^verbatim>\<open>Tensor.fill_(value)\<close>: every entry becomes \<^verbatim>\<open>value\<close>, converted to the tensor's
  element type (\<^verbatim>\<open>False\<close> is 0; a number is true in a boolean tensor iff it is not 0).
\<close>

fun fill :: "pyval \<Rightarrow> real \<Rightarrow> error + pyval" where
  "fill (FloatTensor rows) v = Inr (FloatTensor (map (map (\<lambda>x. v)) rows))"
| "fill (BoolTensor rows) v = Inr (BoolTensor (map (map (\<lambda>x. v \<noteq> 0)) rows))"
| "fill (PyInt n) v = Inl (AttributeError ''fill_'')"

text \<open>\<^verbatim>\<open>Tensor.long()\<close> on a float truncates towards zero.\<close>

definition long :: "real \<Rightarrow> int" where
  "long x = (if 0 \<le> x then \<lfloor>x\<rfloor> else \<lceil>x\<rceil>)"

text \<open>\<^verbatim>\<open>table[indices]\<close> with an integer index tensor; negative indices count from the end.\<close>

definition index_tensor :: "real list \<Rightarrow> int \<Rightarrow> error + real" where
  "index_tensor xs i =
     (let n = int (length xs)
      in if 0 \<le> i \<and> i < n then Inr (xs ! nat i)
         else if - n \<le> i \<and> i < 0 then Inr (xs ! nat (i + n))
         else Inl IndexError)"

fun gather :: "real list \<Rightarrow> int list \<Rightarrow> error + real list" where
  "gather xs [] = Inr []"
| "gather xs (i # rest) =
     bind_err (index_tensor xs i) (\<lambda>v. bind_err (gather xs rest) (\<lambda>vs. Inr (v # vs)))"

text \<open>
  Modelled from the spec: \<^verbatim>\<open>expand_tensor_to_dims\<close> lives in
  \<^verbatim>\<open>utils/torch_utils.py\<close>, which is not among the sources.  The spec (4.2) has one
  noise level sigma per example; accordingly the call of line 700 is read as
  giving the vector of \<^verbatim>\<open>B\<close> sigmas the shape \<^verbatim>\<open>(B, 1, ..., 1)\<close>, so that a product
  with a tensor of shape \<^verbatim>\<open>(B, ...)\<close> multiplies each example by its own factor.
  \<open>scale_rows\<close> is that product.

  The other operations are torch's: \<open>add_t\<close> and \<open>sub_t\<close> are entrywise on tensors
  of one shape, \<open>pow_t\<close> is \<^verbatim>\<open>t.pow(k)\<close>, \<open>mean_rows\<close> is
  \<^verbatim>\<open>t.mean(list(range(1, t.ndim)))\<close> and \<open>mean\<close> is \<^verbatim>\<open>t.mean()\<close> of a vector.
  The ideal mean of no entries is written 0 here where torch yields NaN.
\<close>

definition scale_rows :: "real list \<Rightarrow> real list list \<Rightarrow> real list list" where
  "scale_rows c x = map2 (\<lambda>cb row. map (\<lambda>v. cb * v) row) c x"

definition add_t :: "real list list \<Rightarrow> real list list \<Rightarrow> real list list" where
  "add_t x y = map2 (map2 (\<lambda>u v. u + v)) x y"

definition sub_t :: "real list list \<Rightarrow> real list list \<Rightarrow> real list list" where
  "sub_t x y = map2 (map2 (\<lambda>u v. u - v)) x y"

definition pow_t :: "real list list \<Rightarrow> nat \<Rightarrow> real list list" where
  "pow_t x k = map (map (\<lambda>v. v ^ k)) x"

definition mean :: "real list \<Rightarrow> real" where
  "mean xs = sum_list xs / real (length xs)"

definition mean_rows :: "real list list \<Rightarrow> real list" where
  "mean_rows x = map mean x"

subsection \<open>Capabilities and random draws\<close>

text \<open>
  The model family's capability set (\<^verbatim>\<open>self.model_config\<close>), the scheduler's sigma
  table and its \<^verbatim>\<open>num_train_timesteps\<close>, and diffusers'
  \<^verbatim>\<open>compute_loss_weighting_for_sd3\<close> as a map on one sigma, given the scheme.
  \<open>'v\<close> is the type of a batch of videos.
\<close>

record 'v model_config =
  prepare_latents :: "'v \<Rightarrow> conditions"
  prepare_conditions :: "string list \<Rightarrow> conditions"
  post_latent_preparation :: "(conditions \<Rightarrow> conditions) option"
  forward_pass :: "int list \<Rightarrow> conditions \<Rightarrow> conditions \<Rightarrow> conditions"
  scheduler_sigmas :: "real list"
  num_train_timesteps :: int
  compute_loss_weighting_for_sd3 :: "string \<Rightarrow> real \<Rightarrow> real"

text \<open>
  What one step draws at random: the two calls of \<^verbatim>\<open>random.random()\<close>
  (lines 637 and 674), the sample of the \<^verbatim>\<open>DiagonalGaussianDistribution\<close>
  (line 661), \<^verbatim>\<open>compute_density_for_timestep_sampling\<close> for a batch size
  (line 683) and \<^verbatim>\<open>torch.randn\<close> for a shape, given as the lengths of the
  flattened examples (line 694).
\<close>

record draws =
  random_empty :: real
  random_zero :: real
  gaussian_sample :: "real list list \<Rightarrow> real list list"
  density :: "nat \<Rightarrow> real list"
  randn :: "nat list \<Rightarrow> real list list"

text \<open>
  A batch of the live dataloader has the keys \<^verbatim>\<open>videos\<close> and \<^verbatim>\<open>prompts\<close>; a
  batch of the cache reader has \<^verbatim>\<open>latent_conditions\<close> and \<^verbatim>\<open>text_conditions\<close>.
\<close>

datatype 'v batch = Live 'v "string list" | Precomputed conditions conditions

subsection \<open>The body of the step loop, lines 631-718\<close>

text \<open>
  Lines 631-671: the conditions of the batch.  The result is the prompts handed to
  \<^verbatim>\<open>prepare_conditions\<close> (\<open>None\<close> when it is not called), \<^verbatim>\<open>latent_conditions\<close>,
  \<^verbatim>\<open>text_conditions\<close> and \<^verbatim>\<open>batch_size\<close>.  \<^verbatim>\<open>align_device_and_dtype\<close> and
  \<^verbatim>\<open>make_contiguous\<close> (utilities that are not among the sources) move tensors to
  a device, convert their width and lay them out in memory; none of this changes
  an idealised entry, so they do not appear.
\<close>

definition batch_conditions ::
  "'v model_config \<Rightarrow> args \<Rightarrow> draws \<Rightarrow> 'v batch
     \<Rightarrow> error + (string list option \<times> conditions \<times> conditions \<times> nat)" where
  "batch_conditions cfg a d b =
     (if \<not> precompute_conditions a then
        (case b of
           Precomputed lc tc \<Rightarrow> Inl (KeyError ''videos'')
         | Live videos prompts0 \<Rightarrow>
             let batch_size = length prompts0;
                 prompts = (if caption_dropout_technique a = ''empty''
                            then (if random_empty d < caption_dropout_p a
                                  then replicate batch_size ''''
                                  else prompts0)
                            else prompts0)
             in Inr (Some prompts, prepare_latents cfg videos, prepare_conditions cfg prompts,
                     batch_size))
      else
        (case b of
           Live videos prompts0 \<Rightarrow> Inl (KeyError ''latent_conditions'')
         | Precomputed lc0 tc \<Rightarrow>
             bind_err (bind_err (lookup lc0 ''latents'') as_float) (\<lambda>moments.
               let lc1 = lc0(''latents'' \<mapsto> FloatTensor (gaussian_sample d moments));
                   lc2 = (case post_latent_preparation cfg of None \<Rightarrow> lc1 | Some f \<Rightarrow> f lc1)
               in bind_err (bind_err (lookup lc2 ''latents'') as_float) (\<lambda>x.
                    Inr (None, lc2, tc, length x)))))"

text \<open>Lines 673-680: caption dropout by zeroing; \<open>r\<close> is the value of \<^verbatim>\<open>random.random()\<close>.\<close>

definition caption_dropout_zero :: "args \<Rightarrow> real \<Rightarrow> conditions \<Rightarrow> error + conditions" where
  "caption_dropout_zero a r tc =
     (if caption_dropout_technique a = ''zero'' then
        (if r < caption_dropout_p a then
           bind_err (lookup tc ''prompt_embeds'') (\<lambda>pe. bind_err (fill pe 0) (\<lambda>pe'.
             let tc1 = tc(''prompt_embeds'' \<mapsto> pe') in
             bind_err (lookup tc1 ''prompt_attention_mask'') (\<lambda>pm. bind_err (fill pm 0) (\<lambda>pm'.
               let tc2 = tc1(''prompt_attention_mask'' \<mapsto> pm') in
               (case tc2 ''pooled_prompt_embeds'' of
                  None \<Rightarrow> Inr tc2
                | Some pp \<Rightarrow>
                    bind_err (fill pp 0) (\<lambda>pp'. Inr (tc2(''pooled_prompt_embeds'' \<mapsto> pp'))))))))
         else Inr tc)
      else Inr tc)"

text \<open>Line 701: \<^verbatim>\<open>(1.0 - sigmas) * latents + sigmas * noise\<close>, sigmas expanded.\<close>

definition flow_noisy_latents ::
  "real list \<Rightarrow> real list list \<Rightarrow> real list list \<Rightarrow> real list list" where
  "flow_noisy_latents sg x n =
     add_t (scale_rows (map (\<lambda>s. 1 - s) sg) x) (scale_rows sg n)"

text \<open>Line 712: \<^verbatim>\<open>noise - latents\<close>.\<close>

definition flow_target :: "real list list \<Rightarrow> real list list \<Rightarrow> real list list" where
  "flow_target n x = sub_t n x"

text \<open>Lines 714-718: the weighted squared error and its two means.\<close>

definition flow_loss :: "real list \<Rightarrow> real list list \<Rightarrow> real list list \<Rightarrow> real" where
  "flow_loss w p tg = mean (mean_rows (scale_rows w (pow_t (sub_t p tg) 2)))"

text \<open>What the step computed, for inspection.\<close>

record step =
  encoded_prompts :: "string list option"
  text_conditions :: conditions
  latents :: "real list list"
  sigmas :: "real list"
  timesteps :: "int list"
  noise :: "real list list"
  noisy_latents :: "real list list"
  weights :: "real list"
  pred :: "real list list"
  target :: "real list list"
  loss :: real

definition train_step :: "'v model_config \<Rightarrow> args \<Rightarrow> draws \<Rightarrow> 'v batch \<Rightarrow> error + step" where
  "train_step cfg a d b =
     bind_err (batch_conditions cfg a d b) (\<lambda>(enc, lc, tc0, batch_size).
     bind_err (caption_dropout_zero a (random_zero d) tc0) (\<lambda>tc.
     bind_err (gather (scheduler_sigmas cfg)
                 (map (\<lambda>u. long (u * real_of_int (num_train_timesteps cfg)))
                    (density d batch_size))) (\<lambda>sg.
     bind_err (bind_err (lookup lc ''latents'') as_float) (\<lambda>x.
       let ts = map (\<lambda>s. long (s * 1000)) sg;
           n = randn d (map length x);
           noisy = flow_noisy_latents sg x n;
           lc' = lc(''noisy_latents'' \<mapsto> FloatTensor noisy);
           w = map (compute_loss_weighting_for_sd3 cfg (flow_weighting_scheme a)) sg
       in bind_err (bind_err (lookup (forward_pass cfg ts lc' tc) ''latents'') as_float) (\<lambda>p.
            let tg = flow_target n x
            in Inr \<lparr>encoded_prompts = enc, text_conditions = tc, latents = x, sigmas = sg,
                    timesteps = ts, noise = n, noisy_latents = noisy, weights = w,
                    pred = p, target = tg, loss = flow_loss w p tg\<rparr>)))))"

subsection \<open>Notions used to state what caption dropout does\<close>

text \<open>
  \<open>zero_fill\<close> is a tensor of the same shape with every entry zero (false for a
  boolean tensor); \<open>all_zero\<close> says that a value is a tensor without a non-zero
  (true) entry.
\<close>

fun zero_fill :: "pyval \<Rightarrow> pyval" where
  "zero_fill (FloatTensor rows) = FloatTensor (map (map (\<lambda>x. 0)) rows)"
| "zero_fill (BoolTensor rows) = BoolTensor (map (map (\<lambda>x. False)) rows)"
| "zero_fill (PyInt n) = PyInt n"

fun all_zero :: "pyval \<Rightarrow> bool" where
  "all_zero (FloatTensor rows) = list_all (list_all (\<lambda>v. v = 0)) rows"
| "all_zero (BoolTensor rows) = list_all (list_all (\<lambda>v. \<not> v)) rows"
| "all_zero (PyInt n) = False"

fun is_tensor :: "pyval \<Rightarrow> bool" where
  "is_tensor (FloatTensor rows) = True"
| "is_tensor (BoolTensor rows) = True"
| "is_tensor (PyInt n) = False"

section \<open>The training loop: steps, epochs, checkpoints and validation\<close>

subsection \<open>The schedule\<close>

text \<open>\<^verbatim>\<open>math.ceil(a / b)\<close> and \<^verbatim>\<open>a % b\<close> on integers; both raise when \<^verbatim>\<open>b\<close> is 0.\<close>

definition ceil_div :: "int \<Rightarrow> int \<Rightarrow> error + int" where
  "ceil_div a b =
     (if b = 0 then Inl ZeroDivisionError else Inr \<lceil>real_of_int a / real_of_int b\<rceil>)"

definition py_mod :: "int \<Rightarrow> int \<Rightarrow> error + int" where
  "py_mod a b = (if b = 0 then Inl ZeroDivisionError else Inr (a mod b))"

text \<open>
  The values \<^verbatim>\<open>prepare_optimizer\<close> (lines 471-472 and 513-516) and
  \<^verbatim>\<open>prepare_for_training\<close> (lines 552-558) leave in \<^verbatim>\<open>self.state\<close>.
  \<open>len0\<close> is \<^verbatim>\<open>len(self.dataloader)\<close> before \<^verbatim>\<open>accelerator.prepare\<close> and \<open>len1\<close>
  after it.
\<close>

record schedule =
  state_train_steps :: int
  state_train_epochs :: int
  num_update_steps_per_epoch :: int

definition prepare_for_training :: "args \<Rightarrow> nat \<Rightarrow> nat \<Rightarrow> error + schedule" where
  "prepare_for_training a len0 len1 =
     bind_err (ceil_div (int len0) (gradient_accumulation_steps a)) (\<lambda>per_epoch0.
       let steps0 = (case train_steps a of None \<Rightarrow> train_epochs a * per_epoch0 | Some n \<Rightarrow> n);
           overwrote_max_train_steps = (train_steps a = None)
       in bind_err (ceil_div (int len1) (gradient_accumulation_steps a)) (\<lambda>per_epoch.
            let steps = (if overwrote_max_train_steps then train_epochs a * per_epoch
                         else steps0)
            in bind_err (ceil_div steps per_epoch) (\<lambda>epochs.
                 Inr \<lparr>state_train_steps = steps, state_train_epochs = epochs,
                      num_update_steps_per_epoch = per_epoch\<rparr>)))"

text \<open>
  Modelled from the spec: \<^verbatim>\<open>get_latest_ckpt_path_to_resume_from\<close> lives in
  \<^verbatim>\<open>utils/checkpointing.py\<close>, which is not among the sources.  By the spec (4.3 and
  the resume property of section 8), without a checkpoint to resume from it returns
  the cold-start tuple, and resuming from the checkpoint of step \<open>S\<close> with \<open>E\<close>
  update steps per epoch gives initial step \<open>S\<close>, global step \<open>S\<close> and first epoch
  \<open>S // E\<close>.  \<open>found\<close> is the step of the checkpoint that the request resolves to,
  if any; the result is \<^verbatim>\<open>(initial_global_step, global_step, first_epoch)\<close>.
\<close>

definition get_latest_ckpt_path_to_resume_from ::
  "int option \<Rightarrow> int \<Rightarrow> error + (int \<times> int \<times> int)" where
  "get_latest_ckpt_path_to_resume_from found per_epoch =
     (case found of
        None \<Rightarrow> Inr (0, 0, 0)
      | Some s \<Rightarrow>
          if per_epoch = 0 then Inl ZeroDivisionError else Inr (s, s, s div per_epoch))"

subsection \<open>One pass of the step loop body\<close>

text \<open>
  What happened in one pass of the body of the step loop (lines 626-769), that is,
  for one micro-batch: whether the pass was a gradient-synchronisation boundary,
  the value of \<^verbatim>\<open>global_step\<close> at its end, whether \<^verbatim>\<open>accelerator.save_state\<close> was
  called and whether \<^verbatim>\<open>self.validate\<close> was called from the step trigger.
\<close>

record micro =
  in_epoch :: nat
  at_step :: nat
  sync_gradients :: bool
  global_step_after :: int
  saved_state :: bool
  validated :: bool

text \<open>
  \<open>global_step\<close> is the local variable of \<^verbatim>\<open>train\<close>; \<open>accumulate_step\<close> is the
  counter \<^verbatim>\<open>Accelerator.step\<close>; \<open>passes\<close> lists the passes of the body so far and
  \<open>epoch_validations\<close> the calls of \<^verbatim>\<open>self.validate\<close> from the epoch trigger, each
  with its epoch and the global step.
\<close>

record loop_state =
  global_step :: int
  accumulate_step :: int
  passes :: "micro list"
  epoch_validations :: "(nat \<times> int) list"

text \<open>
  Entering \<^verbatim>\<open>with accelerator.accumulate(...)\<close>, as the accelerate library does it:
  on the last batch of the dataloader the counter is reset and gradients are
  synchronised; otherwise the counter is incremented and gradients are
  synchronised when it is a multiple of \<^verbatim>\<open>gradient_accumulation_steps\<close>.  The result
  is the new counter and \<^verbatim>\<open>accelerator.sync_gradients\<close>.
\<close>

definition accumulate :: "args \<Rightarrow> int \<Rightarrow> bool \<Rightarrow> error + (int \<times> bool)" where
  "accumulate a counter end_of_dataloader =
     (if end_of_dataloader then Inr (0, True)
      else bind_err (py_mod (counter + 1) (gradient_accumulation_steps a)) (\<lambda>m.
             Inr (counter + 1, m = 0)))"

text \<open>
  Lines 626-766 for one micro-batch; the block of lines 631-738 (the training step
  proper, with \<^verbatim>\<open>optimizer.step()\<close>) is taken to complete.  \<open>writer\<close> is the
  condition of line 746: the process is the main process, or DeepSpeed is in use.
\<close>

definition step_body ::
  "args \<Rightarrow> bool \<Rightarrow> nat \<Rightarrow> nat \<Rightarrow> bool \<Rightarrow> loop_state \<Rightarrow> error + loop_state" where
  "step_body a writer epoch step end_of_dataloader s =
     bind_err (accumulate a (accumulate_step s) end_of_dataloader) (\<lambda>(counter, sync).
       let g = (if sync then global_step s + 1 else global_step s) in
       bind_err (if sync \<and> writer
                 then bind_err (py_mod g (checkpointing_steps a)) (\<lambda>m. Inr (m = 0))
                 else Inr False) (\<lambda>save.
       bind_err (case validation_every_n_steps a of
                   None \<Rightarrow> Inr False
                 | Some n \<Rightarrow> bind_err (py_mod g n) (\<lambda>m. Inr (m = 0))) (\<lambda>should_run_validation.
         Inr (s\<lparr>global_step := g, accumulate_step := counter,
                passes := passes s @
                  [\<lparr>in_epoch = epoch, at_step = step, sync_gradients = sync,
                    global_step_after = g, saved_state = save,
                    validated = should_run_validation\<rparr>]\<rparr>))))"

subsection \<open>The two loops\<close>

text \<open>
  \<^verbatim>\<open>for step, batch in enumerate(self.dataloader)\<close> with the \<^verbatim>\<open>break\<close> of lines
  768-769; \<open>len\<close> is the number of batches of the dataloader and the list holds the
  steps still to come.
\<close>

fun step_loop ::
  "args \<Rightarrow> bool \<Rightarrow> int \<Rightarrow> nat \<Rightarrow> nat \<Rightarrow> nat list \<Rightarrow> loop_state \<Rightarrow> error + loop_state" where
  "step_loop a writer steps epoch len [] s = Inr s"
| "step_loop a writer steps epoch len (step # rest) s =
     bind_err (step_body a writer epoch step (step + 1 = len) s) (\<lambda>s'.
       if global_step s' \<ge> steps then Inr s'
       else step_loop a writer steps epoch len rest s')"

text \<open>
  \<^verbatim>\<open>for epoch in range(first_epoch, self.state.train_epochs)\<close>: the step loop, then
  the epoch trigger of validation (lines 774-780).
\<close>

fun epoch_loop ::
  "args \<Rightarrow> bool \<Rightarrow> int \<Rightarrow> nat \<Rightarrow> nat list \<Rightarrow> loop_state \<Rightarrow> error + loop_state" where
  "epoch_loop a writer steps len [] s = Inr s"
| "epoch_loop a writer steps len (epoch # rest) s =
     bind_err (step_loop a writer steps epoch len [0..<len] s) (\<lambda>s'.
     bind_err (case validation_every_n_epochs a of
                 None \<Rightarrow> Inr False
               | Some n \<Rightarrow> bind_err (py_mod (int epoch + 1) n) (\<lambda>m. Inr (m = 0)))
       (\<lambda>should_run_validation.
          epoch_loop a writer steps len rest
            (if should_run_validation
             then s'\<lparr>epoch_validations := epoch_validations s' @ [(epoch, global_step s')]\<rparr>
             else s')))"

text \<open>
  \<^verbatim>\<open>Trainer.train\<close> up to the end of the epoch loop (lines 587-780), after
  \<^verbatim>\<open>prepare_for_training\<close>.  \<open>len\<close> is the length of the prepared dataloader.
  \<open>found\<close> is the checkpoint resumed from, if any: its step, and the value that
  \<^verbatim>\<open>accelerator.load_state\<close> leaves in \<^verbatim>\<open>Accelerator.step\<close>, which is 0 in a fresh
  accelerator.  The dataloader is not advanced on resumption.
\<close>

definition train :: "args \<Rightarrow> bool \<Rightarrow> nat \<Rightarrow> (int \<times> int) option \<Rightarrow> error + loop_state" where
  "train a writer len found =
     bind_err (prepare_for_training a len len) (\<lambda>sched.
     bind_err (get_latest_ckpt_path_to_resume_from (map_option fst found)
                 (num_update_steps_per_epoch sched))
       (\<lambda>(initial_global_step, global_step0, first_epoch).
          epoch_loop a writer (state_train_steps sched) len
            [nat first_epoch..<nat (state_train_epochs sched)]
            \<lparr>global_step = global_step0,
             accumulate_step = (case found of None \<Rightarrow> 0 | Some (s, counter) \<Rightarrow> counter),
             passes = [], epoch_validations = []\<rparr>))"

subsection \<open>Notions used to state what the loop does\<close>

text \<open>Every pass so far that saved the state was a gradient-synchronisation boundary.\<close>

definition saves_at_sync :: "loop_state \<Rightarrow> bool" where
  "saves_at_sync s \<longleftrightarrow> (\<forall>m \<in> set (passes s). saved_state m \<longrightarrow> sync_gradients m)"

section \<open>A small configuration for concrete runs\<close>

text \<open>
  Three examples of two entries each.  The sigma table has three levels and the
  density draw picks the levels 1, 1/2 and 0 for the three examples; the noise is
  constant 1; the denoiser predicts 1 everywhere; every loss weight is 1.
\<close>

definition example_config :: "unit model_config" where
  "example_config =
     \<lparr>prepare_latents = (\<lambda>v. [''latents'' \<mapsto> FloatTensor [[2, 4], [6, 8], [10, 12]]]),
      prepare_conditions = (\<lambda>ps.
         [''prompt_embeds'' \<mapsto> FloatTensor (map (\<lambda>p. [real (length p), 7]) ps),
          ''prompt_attention_mask'' \<mapsto> BoolTensor (map (\<lambda>p. [True, p \<noteq> []]) ps)]),
      post_latent_preparation = None,
      forward_pass = (\<lambda>ts lc tc. [''latents'' \<mapsto> FloatTensor [[1, 1], [1, 1], [1, 1]]]),
      scheduler_sigmas = [1, 1 / 2, 0],
      num_train_timesteps = 3,
      compute_loss_weighting_for_sd3 = (\<lambda>scheme s. 1)\<rparr>"

definition example_draws :: draws where
  "example_draws =
     \<lparr>random_empty = 1 / 4, random_zero = 3 / 4,
      gaussian_sample = (\<lambda>m. m),
      density = (\<lambda>n. take n [0, 1 / 2, 5 / 6]),
      randn = (\<lambda>shape. map (\<lambda>k. replicate k 1) shape)\<rparr>"

definition example_args :: args where
  "example_args =
     \<lparr>precompute_conditions = False, batch_size = 3, caption_dropout_p = 1,
      caption_dropout_technique = ''empty'', mixed_precision = ''bf16'',
      flow_weighting_scheme = ''none'', gradient_accumulation_steps = 1,
      checkpointing_steps = 500, validation_every_n_steps = None,
      validation_every_n_epochs = None, train_steps = None, train_epochs = 1\<rparr>"

definition example_prompts :: "string list" where
  "example_prompts = [''a cat'', ''a dog'', ''a goat'']"

text \<open>What the step computes on the live batch of the three example prompts.\<close>

definition example_step :: step where
  "example_step =
     \<lparr>encoded_prompts = Some [[], [], []],
      text_conditions =
        [''prompt_embeds'' \<mapsto> FloatTensor [[0, 7], [0, 7], [0, 7]],
         ''prompt_attention_mask'' \<mapsto>
           BoolTensor [[True, False], [True, False], [True, False]]],
      latents = [[2, 4], [6, 8], [10, 12]], sigmas = [1, 1 / 2, 0],
      timesteps = [1000, 500, 0], noise = [[1, 1], [1, 1], [1, 1]],
      noisy_latents = [[1, 1], [7 / 2, 9 / 2], [10, 12]], weights = [1, 1, 1],
      pred = [[1, 1], [1, 1], [1, 1]],
      target = [[-1, -3], [-5, -7], [-9, -11]],
      loss = 182 / 3\<rparr>"

text \<open>
  The same live batch under technique \<^verbatim>\<open>"zero"\<close>, and the batch as the cache reader
  would deliver it, with what the step computes on each.
\<close>

definition example_args_zero :: args where
  "example_args_zero = example_args\<lparr>caption_dropout_technique := ''zero''\<rparr>"

definition example_step_zero :: step where
  "example_step_zero =
     example_step
       \<lparr>encoded_prompts := Some example_prompts,
        text_conditions :=
          [''prompt_embeds'' \<mapsto> FloatTensor [[0, 0], [0, 0], [0, 0]],
           ''prompt_attention_mask'' \<mapsto>
             BoolTensor [[False, False], [False, False], [False, False]]]\<rparr>"

definition example_latent_conditions :: conditions where
  "example_latent_conditions = [''latents'' \<mapsto> FloatTensor [[2, 4], [6, 8], [10, 12]]]"

definition example_text_conditions :: conditions where
  "example_text_conditions =
     [''prompt_embeds'' \<mapsto> FloatTensor [[5, 7], [5, 7], [6, 7]],
      ''prompt_attention_mask'' \<mapsto> BoolTensor [[True, True], [True, True], [True, True]]]"

definition example_args_precomputed :: args where
  "example_args_precomputed =
     example_args\<lparr>precompute_conditions := True, batch_size := 1, caption_dropout_p := 1 / 2\<rparr>"

definition example_step_precomputed :: step where
  "example_step_precomputed =
     example_step\<lparr>encoded_prompts := None, text_conditions := example_text_conditions\<rparr>"



text \<open>
  Two runs of the loop.  In the first, four batches per epoch without accumulation
  and \<^verbatim>\<open>train_steps = 6\<close>, resumed from the checkpoint of step 3.  In the second,
  four batches per epoch accumulated in pairs, \<^verbatim>\<open>train_steps = 2\<close> and validation
  every 2 steps, started cold.
\<close>

definition example_args_resumed :: args where
  "example_args_resumed =
     example_args\<lparr>batch_size := 1, gradient_accumulation_steps := 1, checkpointing_steps := 3,
                  train_steps := Some 6\<rparr>"

definition example_args_accumulating :: args where
  "example_args_accumulating =
     example_args\<lparr>batch_size := 1, gradient_accumulation_steps := 2, checkpointing_steps := 2,
                  validation_every_n_steps := Some 2, train_steps := Some 2\<rparr>"

text \<open>
  A transformer with one frozen backbone weight and one trainable adapter weight,
  both stored at the given width, and an adapter state dictionary for it.
\<close>

definition example_transformer :: "torch_dtype \<Rightarrow> model" where
  "example_transformer d =
     \<lparr>cls = ''Transformer'', params =
        [\<lparr>name = ''to_q.weight'', requires_grad = False, dtype = d, data = [5, 6]\<rparr>,
         \<lparr>name = ''to_q.lora_A.weight'', requires_grad = True, dtype = d, data = [0, 0]\<rparr>]\<rparr>"

definition example_state_dict :: "string \<rightharpoonup> real list" where
  "example_state_dict = [''to_q.lora_A.weight'' \<mapsto> [1, 2]]"

definition example_args_fp16 :: args where
  "example_args_fp16 = example_args\<lparr>mixed_precision := ''fp16''\<rparr>"

text \<open>A dataset of one sample, a fresh trainer, and a trainer over its complete cache.\<close>

definition example_dataset :: "unit sample list" where
  "example_dataset = [(''a cat'', ())]"

definition example_trainer :: trainer where
  "example_trainer = \<lparr>files = [], dataloader = BucketedDataset, events = []\<rparr>"

definition example_trainer_cached :: trainer where
  "example_trainer_cached = example_trainer\<lparr>files := [Conditions 0 0, Latents 0 0]\<rparr>"

section \<open>Properties\<close>

subsection \<open>Basic facts\<close>

lemma bind_err_Inr: "bind_err (Inr x) f = f x"
  by (simp add: bind_err_def)

lemma events_emit [simp]: "events (emit es t) = events t @ es"
  and files_emit [simp]: "files (emit es t) = files t"
  and dataloader_emit [simp]: "dataloader (emit es t) = dataloader t"
  by (simp_all add: emit_def)

lemma torch_save_fields [simp]:
  "events (torch_save f t) = events t @ [TorchSave f]"
  "files (torch_save f t) = (if f \<in> set (files t) then files t else files t @ [f])"
  "dataloader (torch_save f t) = dataloader t"
  by (simp_all add: torch_save_def)

lemma upt_examples: "[0..<4] = [0, 1, 2, 3]" "[0..<2] = [0, 1]" "[0..<1] = [0]"
  by (simp_all add: upt_rec)

subsection \<open>Validation runner\<close>

lemma validate_loop_filter:
  "validate_loop P r xs = filter (\<lambda>i. i mod P = r) xs"
  by (induction xs) simp_all

lemma set_validate:
  "set (validate P r V) = {i. i < V \<and> i mod P = r}"
  by (auto simp: validate_def validate_loop_filter)

lemma distinct_validate: "distinct (validate P r V)"
  by (simp add: validate_def validate_loop_filter)

text \<open>
  Claim C7.  For \<open>V \<ge> 1\<close> validation prompts and \<open>P \<ge> 1\<close> processes, prompt index
  \<open>i\<close> is generated by the process of rank \<open>r\<close> exactly when \<open>r = i mod P\<close>.  Hence
  the indices generated by all ranks together are exactly \<open>0, ..., V - 1\<close>, two
  different ranks share no index, a rank generates no index outside its own
  residue class, and no rank generates an index twice.
\<close>

theorem validate_round_robin:
  assumes "1 \<le> V" and "1 \<le> P"
  shows "(\<forall>i<V. \<forall>r<P. i \<in> set (validate P r V) \<longleftrightarrow> r = i mod P)
       \<and> (\<Union>r\<in>{0..<P}. set (validate P r V)) = {0..<V}
       \<and> (\<forall>r1<P. \<forall>r2<P. r1 \<noteq> r2 \<longrightarrow> set (validate P r1 V) \<inter> set (validate P r2 V) = {})
       \<and> (\<forall>r<P. \<forall>i \<in> set (validate P r V). i < V \<and> i mod P = r)
       \<and> (\<forall>r<P. distinct (validate P r V))"
proof -
  have a: "\<forall>i<V. \<forall>r<P. i \<in> set (validate P r V) \<longleftrightarrow> r = i mod P"
    by (auto simp: set_validate)
  have b: "(\<Union>r\<in>{0..<P}. set (validate P r V)) = {0..<V}"
  proof (rule set_eqI)
    fix i
    from assms(2) have "i mod P < P" by simp
    then show "i \<in> (\<Union>r\<in>{0..<P}. set (validate P r V)) \<longleftrightarrow> i \<in> {0..<V}"
      by (auto simp: set_validate)
  qed
  have c: "\<forall>r1<P. \<forall>r2<P. r1 \<noteq> r2 \<longrightarrow> set (validate P r1 V) \<inter> set (validate P r2 V) = {}"
    by (auto simp: set_validate)
  have d: "\<forall>r<P. \<forall>i \<in> set (validate P r V). i < V \<and> i mod P = r"
    by (simp add: set_validate)
  have e: "\<forall>r<P. distinct (validate P r V)"
    by (simp add: distinct_validate)
  from a b c d e show ?thesis by blast
qed

theorem validate_round_robin_witness:
  "(1::nat) \<le> 5 \<and> (1::nat) \<le> 2
   \<and> validate 2 0 5 = [0, 2, 4] \<and> validate 2 1 5 = [1, 3]
   \<and> (\<Union>r\<in>{0..<2}. set (validate 2 r 5)) = {0..<5}
   \<and> set (validate 2 0 5) \<inter> set (validate 2 1 5) = {}"
proof -
  have h1: "(1::nat) \<le> 5" and h2: "(1::nat) \<le> 2" by simp_all
  have v0: "validate 2 0 5 = [0, 2, 4]" by code_simp
  have v1: "validate 2 1 5 = [1, 3]" by code_simp
  from validate_round_robin [OF h1 h2]
  have u: "(\<Union>r\<in>{0..<2}. set (validate 2 r 5)) = {0..<5}"
    and dj: "\<forall>r1<2. \<forall>r2<2. r1 \<noteq> r2 \<longrightarrow> set (validate 2 r1 5) \<inter> set (validate 2 r2 5) = {}"
    by blast+
  from dj have "set (validate 2 0 5) \<inter> set (validate 2 1 5) = {}"
    by (metis One_nat_def lessI numeral_2_eq_2 pos2 zero_neq_one)
  with h1 h2 v0 v1 u show ?thesis by blast
qed

subsection \<open>Precomputation cache manager\<close>

text \<open>
  Claim C5.  With precomputation enabled and a batch size other than 1,
  \<^verbatim>\<open>prepare_precomputations\<close> raises the \<^verbatim>\<open>ValueError\<close> about batch size 1 and has
  done nothing by then but log that precomputations are being initialised: the
  artifact listing and the dataloader are as before and no encoder was loaded, no
  sample encoded and no artifact saved.  With batch size 1 the method raises
  nothing.
\<close>

theorem prepare_precomputations_batch_size:
  assumes "precompute_conditions a"
  shows "(batch_size a \<noteq> 1 \<longrightarrow>
            prepare_precomputations a P r ds t =
              (Some (ValueError
                 ''Precomputation is only supported with batch size 1. This will be supported in future.''),
               emit [LogInfo ''Initializing precomputations''] t)
          \<and> files (snd (prepare_precomputations a P r ds t)) = files t
          \<and> dataloader (snd (prepare_precomputations a P r ds t)) = dataloader t
          \<and> filter encoding_work (events (snd (prepare_precomputations a P r ds t)))
              = filter encoding_work (events t))
       \<and> (batch_size a = 1 \<longrightarrow> fst (prepare_precomputations a P r ds t) = None)"
  using assms by (simp add: prepare_precomputations_def Let_def)

theorem prepare_precomputations_batch_size_witness:
  "precompute_conditions example_args_precomputed
   \<and> batch_size (example_args_precomputed\<lparr>batch_size := 2\<rparr>) \<noteq> 1
   \<and> prepare_precomputations (example_args_precomputed\<lparr>batch_size := 2\<rparr>) 1 0
        example_dataset example_trainer
     = (Some (ValueError
          ''Precomputation is only supported with batch size 1. This will be supported in future.''),
        \<lparr>files = [], dataloader = BucketedDataset,
         events = [LogInfo ''Initializing precomputations'']\<rparr>)
   \<and> batch_size example_args_precomputed = 1
   \<and> fst (prepare_precomputations example_args_precomputed 1 0 example_dataset example_trainer)
     = None"
proof -
  have p: "precompute_conditions example_args_precomputed"
    "precompute_conditions (example_args_precomputed\<lparr>batch_size := 2\<rparr>)"
    and b: "batch_size (example_args_precomputed\<lparr>batch_size := 2\<rparr>) \<noteq> 1"
    "batch_size example_args_precomputed = 1"
    by (simp_all add: example_args_precomputed_def example_args_def)
  from prepare_precomputations_batch_size [OF p(2), of 1 0 example_dataset example_trainer] b(1)
  have one: "prepare_precomputations (example_args_precomputed\<lparr>batch_size := 2\<rparr>) 1 0
        example_dataset example_trainer
     = (Some (ValueError
          ''Precomputation is only supported with batch size 1. This will be supported in future.''),
        \<lparr>files = [], dataloader = BucketedDataset,
         events = [LogInfo ''Initializing precomputations'']\<rparr>)"
    by (simp add: emit_def example_trainer_def)
  from prepare_precomputations_batch_size [OF p(1), of 1 0 example_dataset example_trainer] b(2)
  have two: "fst (prepare_precomputations example_args_precomputed 1 0
                    example_dataset example_trainer) = None"
    by blast
  from p(1) b one two show ?thesis by blast
qed

text \<open>
  Claim C6.  When the completeness check finds a complete cache,
  \<^verbatim>\<open>prepare_precomputations\<close> leaves the artifact listing as it is and adds no event
  that loads an encoder, encodes a sample or saves an artifact, whatever the batch
  size; with batch size 1 it returns normally, having only logged twice and set
  the dataloader to the reader of the cache.
\<close>

theorem prepare_precomputations_complete_cache:
  assumes "precompute_conditions a"
    and "\<not> should_perform_precomputation (files t) (length ds)"
  shows "files (snd (prepare_precomputations a P r ds t)) = files t
       \<and> filter encoding_work (events (snd (prepare_precomputations a P r ds t)))
           = filter encoding_work (events t)
       \<and> (batch_size a = 1 \<longrightarrow>
            prepare_precomputations a P r ds t =
              (None, t\<lparr>dataloader := PrecomputedDataset 1,
                       events := events t @
                         [LogInfo ''Initializing precomputations'',
                          LogInfo ''Precomputed conditions and latents found. Loading precomputed data.'']\<rparr>))"
  using assms by (simp add: prepare_precomputations_def Let_def emit_def)

theorem prepare_precomputations_complete_cache_witness:
  "precompute_conditions example_args_precomputed
   \<and> batch_size example_args_precomputed = 1
   \<and> \<not> should_perform_precomputation (files example_trainer_cached) (length example_dataset)
   \<and> prepare_precomputations example_args_precomputed 1 0 example_dataset example_trainer_cached
     = (None,
        \<lparr>files = [Conditions 0 0, Latents 0 0], dataloader = PrecomputedDataset 1,
         events = [LogInfo ''Initializing precomputations'',
                   LogInfo ''Precomputed conditions and latents found. Loading precomputed data.'']\<rparr>)"
proof -
  have p: "precompute_conditions example_args_precomputed"
    and b: "batch_size example_args_precomputed = 1"
    by (simp_all add: example_args_precomputed_def example_args_def)
  have c: "\<not> should_perform_precomputation (files example_trainer_cached) (length example_dataset)"
    by (simp add: should_perform_precomputation_def example_trainer_cached_def
        example_trainer_def example_dataset_def)
  from prepare_precomputations_complete_cache [OF p c, of 1 0] b
  have "prepare_precomputations example_args_precomputed 1 0 example_dataset example_trainer_cached
     = (None,
        \<lparr>files = [Conditions 0 0, Latents 0 0], dataloader = PrecomputedDataset 1,
         events = [LogInfo ''Initializing precomputations'',
                   LogInfo ''Precomputed conditions and latents found. Loading precomputed data.'']\<rparr>)"
    by (simp add: example_trainer_cached_def example_trainer_def)
  with p b c show ?thesis by blast
qed

subsection \<open>Adapter persistence\<close>

lemma pop_models_all_transformers:
  "\<forall>m \<in> set ms. cls m = c \<Longrightarrow>
   pop_models c ms cur = Inr (if ms = [] then cur else Some (last ms))"
  by (induction ms arbitrary: cur) auto

text \<open>
  Claim C9, which fails as stated: with \<^verbatim>\<open>mixed_precision == "bf16"\<close> the hook
  casts nothing.  Here the model handed to the hook has a frozen backbone weight and
  a trainable adapter weight, both stored as bfloat16; after the hook the adapter
  weight holds the loaded entries and is still bfloat16.
\<close>

theorem load_model_hook_bf16_counterexample:
  "mixed_precision example_args = ''bf16''
   \<and> load_model_hook example_args False ''Transformer'' (example_transformer Float32)
        example_state_dict [example_transformer BFloat16]
     = Inr \<lparr>cls = ''Transformer'', params =
          [\<lparr>name = ''to_q.weight'', requires_grad = False, dtype = BFloat16, data = [5, 6]\<rparr>,
           \<lparr>name = ''to_q.lora_A.weight'', requires_grad = True, dtype = BFloat16,
            data = [1, 2]\<rparr>]\<rparr>"
  by (simp add: load_model_hook_def set_peft_model_state_dict_def cast_training_params_def
      example_args_def example_transformer_def example_state_dict_def)

text \<open>
  Claim C9 as amended.  Let the hook run either under DeepSpeed, or under ordinary
  replication on a non-empty list of models of the transformer's class.  It
  returns a model (the freshly built one under DeepSpeed, else the first model of
  the list) with the same parameters in the same order, each with its name and its
  \<^verbatim>\<open>requires_grad\<close> flag as before.  If \<^verbatim>\<open>mixed_precision\<close> is \<^verbatim>\<open>"fp16"\<close>, every
  trainable parameter is then stored as float32 and every frozen parameter at the
  width it had; with any other setting every parameter keeps its width.
\<close>

theorem load_model_hook_upcast_fp16:
  assumes "deepspeed \<or> (models \<noteq> [] \<and> (\<forall>m \<in> set models. cls m = c))"
  shows "\<exists>m'. load_model_hook a deepspeed c fresh sd models = Inr m'
          \<and> cls m' = cls (if deepspeed then fresh else hd models)
          \<and> map name (params m') = map name (params (if deepspeed then fresh else hd models))
          \<and> map requires_grad (params m')
              = map requires_grad (params (if deepspeed then fresh else hd models))
          \<and> (mixed_precision a = ''fp16'' \<longrightarrow>
               map dtype (params m') =
                 map (\<lambda>p. if requires_grad p then Float32 else dtype p)
                   (params (if deepspeed then fresh else hd models)))
          \<and> (mixed_precision a \<noteq> ''fp16'' \<longrightarrow>
               map dtype (params m') = map dtype (params (if deepspeed then fresh else hd models)))"
proof (cases deepspeed)
  case True
  then show ?thesis
    by (auto simp: load_model_hook_def set_peft_model_state_dict_def cast_training_params_def
        Let_def comp_def split: option.split)
next
  case False
  with assms have m: "models \<noteq> []" "\<forall>m \<in> set models. cls m = c" by simp_all
  then have "pop_models c (rev models) None = Inr (Some (hd models))"
    by (simp add: pop_models_all_transformers last_rev)
  with False show ?thesis
    by (auto simp: load_model_hook_def set_peft_model_state_dict_def cast_training_params_def
        Let_def comp_def split: option.split)
qed

theorem load_model_hook_upcast_fp16_witness:
  "[example_transformer Float16] \<noteq> []
   \<and> cls (example_transformer Float16) = ''Transformer''
   \<and> mixed_precision example_args_fp16 = ''fp16''
   \<and> load_model_hook example_args_fp16 False ''Transformer'' (example_transformer Float32)
        example_state_dict [example_transformer Float16]
     = Inr \<lparr>cls = ''Transformer'', params =
          [\<lparr>name = ''to_q.weight'', requires_grad = False, dtype = Float16, data = [5, 6]\<rparr>,
           \<lparr>name = ''to_q.lora_A.weight'', requires_grad = True, dtype = Float32,
            data = [1, 2]\<rparr>]\<rparr>
   \<and> map dtype (params (example_transformer Float16)) = [Float16, Float16]"
proof -
  let ?m = "example_transformer Float16"
  have h: "False \<or> ([?m] \<noteq> [] \<and> (\<forall>m \<in> set [?m]. cls m = ''Transformer''))"
    by (simp add: example_transformer_def)
  have fp: "mixed_precision example_args_fp16 = ''fp16''"
    by (simp add: example_args_fp16_def)
  from load_model_hook_upcast_fp16
    [OF h, of example_args_fp16 "example_transformer Float32" example_state_dict]
  obtain m' where r: "load_model_hook example_args_fp16 False ''Transformer''
        (example_transformer Float32) example_state_dict [?m] = Inr m'"
    and n: "map name (params m') = map name (params ?m)"
    and q: "map requires_grad (params m') = map requires_grad (params ?m)"
    and d: "map dtype (params m')
              = map (\<lambda>p. if requires_grad p then Float32 else dtype p) (params ?m)"
    using fp by auto
  have e: "load_model_hook example_args_fp16 False ''Transformer''
        (example_transformer Float32) example_state_dict [?m]
     = Inr \<lparr>cls = ''Transformer'', params =
          [\<lparr>name = ''to_q.weight'', requires_grad = False, dtype = Float16, data = [5, 6]\<rparr>,
           \<lparr>name = ''to_q.lora_A.weight'', requires_grad = True, dtype = Float32,
            data = [1, 2]\<rparr>]\<rparr>"
    by (simp add: load_model_hook_def set_peft_model_state_dict_def cast_training_params_def
        example_args_fp16_def example_args_def example_transformer_def example_state_dict_def)
  from r d e fp show ?thesis by (simp add: example_transformer_def)
qed

subsection \<open>The training step: noising\<close>

lemma train_step_fields:
  assumes "train_step cfg a d b = Inr out"
  shows "noisy_latents out = flow_noisy_latents (sigmas out) (latents out) (noise out)"
    and "target out = flow_target (noise out) (latents out)"
    and "loss out = flow_loss (weights out) (pred out) (target out)"
    and "weights out = map (compute_loss_weighting_for_sd3 cfg (flow_weighting_scheme a)) (sigmas out)"
    and "noise out = randn d (map length (latents out))"
  using assms
  by (auto simp: train_step_def bind_err_def Let_def split: sum.splits prod.splits)

lemma same_shape_length: "map length n = map length x \<Longrightarrow> length n = length x"
  by (metis length_map)

lemma same_shape_row: "map length n = map length x \<Longrightarrow> b < length x \<Longrightarrow> length (n ! b) = length (x ! b)"
  by (metis length_map nth_map)

lemma flow_noisy_latents_row:
  assumes "length sg = length x" and "map length n = map length x" and "b < length x"
  shows "flow_noisy_latents sg x n ! b
           = map2 (\<lambda>u v. (1 - sg ! b) * u + sg ! b * v) (x ! b) (n ! b)"
  using assms same_shape_length [OF assms(2)]
  by (simp add: flow_noisy_latents_def add_t_def scale_rows_def zip_map1 zip_map2 split_def)

lemma length_flow_noisy_latents:
  assumes "length sg = length x" and "map length n = map length x"
  shows "length (flow_noisy_latents sg x n) = length x"
  using assms same_shape_length [OF assms(2)]
  by (simp add: flow_noisy_latents_def add_t_def scale_rows_def)

lemma length_flow_noisy_latents_row:
  assumes "length sg = length x" and "map length n = map length x" and "b < length x"
  shows "length (flow_noisy_latents sg x n ! b) = length (x ! b)"
  using assms same_shape_row [OF assms(2,3)]
  by (simp add: flow_noisy_latents_row)

lemma flow_noisy_latents_entry:
  assumes "length sg = length x" and "map length n = map length x"
    and "b < length x" and "j < length (x ! b)"
  shows "flow_noisy_latents sg x n ! b ! j = (1 - sg ! b) * x ! b ! j + sg ! b * n ! b ! j"
  using assms same_shape_row [OF assms(2,3)]
  by (simp add: flow_noisy_latents_row)

lemma as_float_Inr: "as_float v = Inr x \<Longrightarrow> v = FloatTensor x"
  by (cases v) simp_all

lemma lookup_as_float:
  "bind_err (lookup m k) as_float = Inr x \<longleftrightarrow> m k = Some (FloatTensor x)"
  by (auto simp: bind_err_def lookup_def split: option.splits dest: as_float_Inr)

lemma train_step_inputs:
  assumes "train_step cfg a d b = Inr out"
  shows "\<exists>enc lc tc0 bs. batch_conditions cfg a d b = Inr (enc, lc, tc0, bs)
     \<and> lc ''latents'' = Some (FloatTensor (latents out))
     \<and> gather (scheduler_sigmas cfg)
          (map (\<lambda>u. long (u * real_of_int (num_train_timesteps cfg))) (density d bs))
         = Inr (sigmas out)
     \<and> noise out = randn d (map length (latents out))
     \<and> forward_pass cfg (timesteps out)
          (lc(''noisy_latents'' \<mapsto> FloatTensor (noisy_latents out))) (text_conditions out)
          ''latents'' = Some (FloatTensor (pred out))"
proof -
  from assms obtain enc lc tc0 bs tc sg x p where
    bc: "batch_conditions cfg a d b = Inr (enc, lc, tc0, bs)"
    and cz: "caption_dropout_zero a (random_zero d) tc0 = Inr tc"
    and g: "gather (scheduler_sigmas cfg)
          (map (\<lambda>u. long (u * real_of_int (num_train_timesteps cfg))) (density d bs)) = Inr sg"
    and x: "bind_err (lookup lc ''latents'') as_float = Inr x"
    and p: "bind_err (lookup (forward_pass cfg (map (\<lambda>s. long (s * 1000)) sg)
               (lc(''noisy_latents'' \<mapsto> FloatTensor (flow_noisy_latents sg x (randn d (map length x)))))
               tc) ''latents'') as_float = Inr p"
    and out: "out = \<lparr>encoded_prompts = enc, text_conditions = tc, latents = x, sigmas = sg,
                    timesteps = map (\<lambda>s. long (s * 1000)) sg, noise = randn d (map length x),
                    noisy_latents = flow_noisy_latents sg x (randn d (map length x)),
                    weights = map (compute_loss_weighting_for_sd3 cfg (flow_weighting_scheme a)) sg,
                    pred = p, target = flow_target (randn d (map length x)) x,
                    loss = flow_loss (map (compute_loss_weighting_for_sd3 cfg (flow_weighting_scheme a)) sg) p
                       (flow_target (randn d (map length x)) x)\<rparr>"
    unfolding train_step_def Let_def
    by (auto simp: bind_err_def split: sum.splits prod.splits)
  from x have x': "lc ''latents'' = Some (FloatTensor x)" by (simp add: lookup_as_float)
  from p have p': "forward_pass cfg (map (\<lambda>s. long (s * 1000)) sg)
               (lc(''noisy_latents'' \<mapsto> FloatTensor (flow_noisy_latents sg x (randn d (map length x)))))
               tc ''latents'' = Some (FloatTensor p)" by (simp add: lookup_as_float)
  from bc g x' p' show ?thesis unfolding out by simp
qed

lemma batch_conditions_live:
  assumes "batch_conditions cfg a d (Live videos prompts) = Inr (enc, lc, tc0, bs)"
  shows "lc = prepare_latents cfg videos" and "bs = length prompts"
  using assms by (auto simp: batch_conditions_def Let_def split: if_splits)

lemma bind_err_InrD: "bind_err m f = Inr y \<Longrightarrow> \<exists>x. m = Inr x \<and> f x = Inr y"
  by (cases m) (simp_all add: bind_err_def)

lemma batch_conditions_cache:
  assumes "batch_conditions cfg a d (Precomputed lc0 tc) = Inr (enc, lc, tc0, bs)"
  shows "\<exists>moments x. lc0 ''latents'' = Some (FloatTensor moments)
          \<and> lc = (case post_latent_preparation cfg of
                    None \<Rightarrow> lc0(''latents'' \<mapsto> FloatTensor (gaussian_sample d moments))
                  | Some f \<Rightarrow> f (lc0(''latents'' \<mapsto> FloatTensor (gaussian_sample d moments))))
          \<and> lc ''latents'' = Some (FloatTensor x) \<and> bs = length x"
  using assms
  by (auto simp: batch_conditions_def Let_def lookup_def split: if_splits option.splits
      dest!: bind_err_InrD as_float_Inr)

text \<open>
  Claim C1.  Let a step complete.  The clean latents \<open>x\<close> are the tensor under
  the key \<^verbatim>\<open>latents\<close> of the batch's latent conditions: of
  \<^verbatim>\<open>prepare_latents\<close> applied to the videos of a live batch, and of the cached
  latent conditions of a precomputed batch after sampling and
  \<^verbatim>\<open>post_latent_preparation\<close>.  The noise \<open>n\<close> is what \<^verbatim>\<open>torch.randn\<close> returns
  for the shape of \<open>x\<close>, the sigmas are the entries of the scheduler's table at
  the indices drawn for the batch, and the noisy latents are what the denoiser
  receives under the key \<^verbatim>\<open>noisy_latents\<close>.  Where there is one sigma per example
  and the noise has the shape of the clean latents, the noisy latents have that
  shape too and every entry is \<open>(1 - sigma) * x + sigma * n\<close> with the sigma of its
  example.  An example with sigma 0 is left as the clean latent, one with sigma 1
  becomes the noise, and one with sigma 1/2 the entrywise arithmetic mean of the
  two.
\<close>

theorem train_step_noisy_latents:
  assumes "train_step cfg a d batch = Inr out"
    and "length (sigmas out) = length (latents out)"
    and "map length (noise out) = map length (latents out)"
  shows "(case batch of
            Live videos prompts \<Rightarrow>
                prepare_latents cfg videos ''latents'' = Some (FloatTensor (latents out))
              \<and> gather (scheduler_sigmas cfg)
                   (map (\<lambda>u. long (u * real_of_int (num_train_timesteps cfg)))
                      (density d (length prompts)))
                  = Inr (sigmas out)
              \<and> forward_pass cfg (timesteps out)
                   ((prepare_latents cfg videos)
                      (''noisy_latents'' \<mapsto> FloatTensor (noisy_latents out)))
                   (text_conditions out) ''latents''
                  = Some (FloatTensor (pred out))
          | Precomputed lc0 tc \<Rightarrow>
              (\<exists>moments lc.
                  lc0 ''latents'' = Some (FloatTensor moments)
                \<and> lc = (case post_latent_preparation cfg of
                          None \<Rightarrow> lc0(''latents'' \<mapsto> FloatTensor (gaussian_sample d moments))
                        | Some f \<Rightarrow>
                            f (lc0(''latents'' \<mapsto> FloatTensor (gaussian_sample d moments))))
                \<and> lc ''latents'' = Some (FloatTensor (latents out))
                \<and> gather (scheduler_sigmas cfg)
                     (map (\<lambda>u. long (u * real_of_int (num_train_timesteps cfg)))
                        (density d (length (latents out))))
                    = Inr (sigmas out)
                \<and> forward_pass cfg (timesteps out)
                     (lc(''noisy_latents'' \<mapsto> FloatTensor (noisy_latents out)))
                     (text_conditions out) ''latents''
                    = Some (FloatTensor (pred out))))
       \<and> noise out = randn d (map length (latents out))
       \<and> length (noisy_latents out) = length (latents out)
       \<and> (\<forall>b<length (latents out).
            length (noisy_latents out ! b) = length (latents out ! b)
          \<and> (\<forall>j<length (latents out ! b).
                noisy_latents out ! b ! j
                  = (1 - sigmas out ! b) * latents out ! b ! j + sigmas out ! b * noise out ! b ! j)
          \<and> (sigmas out ! b = 0 \<longrightarrow> noisy_latents out ! b = latents out ! b)
          \<and> (sigmas out ! b = 1 \<longrightarrow> noisy_latents out ! b = noise out ! b)
          \<and> (sigmas out ! b = 1 / 2 \<longrightarrow>
                (\<forall>j<length (latents out ! b).
                   noisy_latents out ! b ! j = (latents out ! b ! j + noise out ! b ! j) / 2)))"
proof -
  let ?sg = "sigmas out" and ?x = "latents out" and ?n = "noise out"
  from train_step_inputs [OF assms(1)] obtain enc lc tc0 bs where
    bc: "batch_conditions cfg a d batch = Inr (enc, lc, tc0, bs)"
    and x: "lc ''latents'' = Some (FloatTensor ?x)"
    and g: "gather (scheduler_sigmas cfg)
              (map (\<lambda>u. long (u * real_of_int (num_train_timesteps cfg))) (density d bs))
             = Inr ?sg"
    and n: "?n = randn d (map length ?x)"
    and p: "forward_pass cfg (timesteps out)
              (lc(''noisy_latents'' \<mapsto> FloatTensor (noisy_latents out))) (text_conditions out)
              ''latents'' = Some (FloatTensor (pred out))"
    by blast
  have inputs: "(case batch of
            Live videos prompts \<Rightarrow>
                prepare_latents cfg videos ''latents'' = Some (FloatTensor (latents out))
              \<and> gather (scheduler_sigmas cfg)
                   (map (\<lambda>u. long (u * real_of_int (num_train_timesteps cfg)))
                      (density d (length prompts)))
                  = Inr (sigmas out)
              \<and> forward_pass cfg (timesteps out)
                   ((prepare_latents cfg videos)
                      (''noisy_latents'' \<mapsto> FloatTensor (noisy_latents out)))
                   (text_conditions out) ''latents''
                  = Some (FloatTensor (pred out))
          | Precomputed lc0 tc \<Rightarrow>
              (\<exists>moments lc.
                  lc0 ''latents'' = Some (FloatTensor moments)
                \<and> lc = (case post_latent_preparation cfg of
                          None \<Rightarrow> lc0(''latents'' \<mapsto> FloatTensor (gaussian_sample d moments))
                        | Some f \<Rightarrow>
                            f (lc0(''latents'' \<mapsto> FloatTensor (gaussian_sample d moments))))
                \<and> lc ''latents'' = Some (FloatTensor (latents out))
                \<and> gather (scheduler_sigmas cfg)
                     (map (\<lambda>u. long (u * real_of_int (num_train_timesteps cfg)))
                        (density d (length (latents out))))
                    = Inr (sigmas out)
                \<and> forward_pass cfg (timesteps out)
                     (lc(''noisy_latents'' \<mapsto> FloatTensor (noisy_latents out)))
                     (text_conditions out) ''latents''
                    = Some (FloatTensor (pred out))))"
  proof (cases batch)
    case (Live videos prompts)
    from bc have "lc = prepare_latents cfg videos" "bs = length prompts"
      unfolding Live by (rule batch_conditions_live)+
    with x g p show ?thesis unfolding Live by simp
  next
    case (Precomputed lc0 tc)
    from bc [unfolded Precomputed] batch_conditions_cache
    obtain moments x' where m: "lc0 ''latents'' = Some (FloatTensor moments)"
      and lc: "lc = (case post_latent_preparation cfg of
                          None \<Rightarrow> lc0(''latents'' \<mapsto> FloatTensor (gaussian_sample d moments))
                        | Some f \<Rightarrow>
                            f (lc0(''latents'' \<mapsto> FloatTensor (gaussian_sample d moments))))"
      and x': "lc ''latents'' = Some (FloatTensor x')" and bs: "bs = length x'"
      by blast
    from x x' have "x' = ?x" by simp
    with bs have "bs = length ?x" by simp
    with m lc x g p show ?thesis unfolding Precomputed by auto
  qed
  have eq: "noisy_latents out = flow_noisy_latents ?sg ?x ?n"
    by (rule train_step_fields(1) [OF assms(1)])
  have len: "length (noisy_latents out) = length ?x"
    by (simp add: eq length_flow_noisy_latents assms(2,3))
  have rows: "length (noisy_latents out ! b) = length (?x ! b)
      \<and> (\<forall>j<length (?x ! b).
            noisy_latents out ! b ! j = (1 - ?sg ! b) * ?x ! b ! j + ?sg ! b * ?n ! b ! j)
      \<and> (?sg ! b = 0 \<longrightarrow> noisy_latents out ! b = ?x ! b)
      \<and> (?sg ! b = 1 \<longrightarrow> noisy_latents out ! b = ?n ! b)
      \<and> (?sg ! b = 1 / 2 \<longrightarrow>
            (\<forall>j<length (?x ! b). noisy_latents out ! b ! j = (?x ! b ! j + ?n ! b ! j) / 2))"
    if b: "b < length ?x" for b
  proof -
    have ln: "length (?n ! b) = length (?x ! b)"
      by (rule same_shape_row [OF assms(3) b])
    have l: "length (noisy_latents out ! b) = length (?x ! b)"
      unfolding eq by (rule length_flow_noisy_latents_row [OF assms(2,3) b])
    have e: "noisy_latents out ! b ! j = (1 - ?sg ! b) * ?x ! b ! j + ?sg ! b * ?n ! b ! j"
      if "j < length (?x ! b)" for j
      unfolding eq by (rule flow_noisy_latents_entry [OF assms(2,3) b that])
    have z: "noisy_latents out ! b = ?x ! b" if "?sg ! b = 0"
      using l e that by (intro nth_equalityI) simp_all
    have o: "noisy_latents out ! b = ?n ! b" if "?sg ! b = 1"
      using l ln e that by (intro nth_equalityI) simp_all
    have h: "noisy_latents out ! b ! j = (?x ! b ! j + ?n ! b ! j) / 2"
      if "?sg ! b = 1 / 2" and "j < length (?x ! b)" for j
      using e [OF that(2)] that(1) by (simp add: field_simps)
    from l e z o h show ?thesis by blast
  qed
  from rows have allrows: "\<forall>b<length ?x. length (noisy_latents out ! b) = length (?x ! b)
      \<and> (\<forall>j<length (?x ! b).
            noisy_latents out ! b ! j = (1 - ?sg ! b) * ?x ! b ! j + ?sg ! b * ?n ! b ! j)
      \<and> (?sg ! b = 0 \<longrightarrow> noisy_latents out ! b = ?x ! b)
      \<and> (?sg ! b = 1 \<longrightarrow> noisy_latents out ! b = ?n ! b)
      \<and> (?sg ! b = 1 / 2 \<longrightarrow>
            (\<forall>j<length (?x ! b). noisy_latents out ! b ! j = (?x ! b ! j + ?n ! b ! j) / 2))"
    by blast
  show ?thesis by (rule conjI [OF inputs conjI [OF n conjI [OF len allrows]]])
qed

lemma example_step_live:
  "train_step example_config example_args example_draws (Live () example_prompts)
     = Inr example_step"
  by (simp add: train_step_def batch_conditions_def caption_dropout_zero_def
      example_config_def example_args_def example_draws_def example_prompts_def
      example_step_def
      bind_err_def lookup_def Let_def flow_noisy_latents_def flow_target_def flow_loss_def
      add_t_def sub_t_def scale_rows_def pow_t_def mean_def mean_rows_def long_def
      index_tensor_def)

theorem train_step_noisy_latents_witness:
  "train_step example_config example_args example_draws (Live () example_prompts)
     = Inr example_step
   \<and> length (sigmas example_step) = length (latents example_step)
   \<and> map length (noise example_step) = map length (latents example_step)
   \<and> prepare_latents example_config () ''latents''
       = Some (FloatTensor [[2, 4], [6, 8], [10, 12]])
   \<and> latents example_step = [[2, 4], [6, 8], [10, 12]]
   \<and> randn example_draws [2, 2, 2] = [[1, 1], [1, 1], [1, 1]]
   \<and> noise example_step = [[1, 1], [1, 1], [1, 1]]
   \<and> gather (scheduler_sigmas example_config)
        (map (\<lambda>u. long (u * real_of_int (num_train_timesteps example_config)))
           (density example_draws (length example_prompts)))
       = Inr [1, 1 / 2, 0]
   \<and> sigmas example_step = [1, 1 / 2, 0]
   \<and> noisy_latents example_step = [[1, 1], [7 / 2, 9 / 2], [10, 12]]
   \<and> noisy_latents example_step ! 0 = noise example_step ! 0
   \<and> noisy_latents example_step ! 1 ! 0
       = (latents example_step ! 1 ! 0 + noise example_step ! 1 ! 0) / 2
   \<and> noisy_latents example_step ! 2 = latents example_step ! 2"
proof -
  have h2: "length (sigmas example_step) = length (latents example_step)"
    by (simp add: example_step_def)
  have h3: "map length (noise example_step) = map length (latents example_step)"
    by (simp add: example_step_def)
  have sg: "sigmas example_step = [1, 1 / 2, 0]" by (simp add: example_step_def)
  have x: "latents example_step = [[2, 4], [6, 8], [10, 12]]" by (simp add: example_step_def)
  have nl: "noisy_latents example_step = [[1, 1], [7 / 2, 9 / 2], [10, 12]]"
    by (simp add: example_step_def)
  have b0: "0 < length (latents example_step)" and b1: "1 < length (latents example_step)"
    and b2: "2 < length (latents example_step)" and j0: "0 < length (latents example_step ! 1)"
    by (simp_all add: example_step_def)
  have s0: "sigmas example_step ! 0 = 1" and s1: "sigmas example_step ! 1 = 1 / 2"
    and s2: "sigmas example_step ! 2 = 0"
    by (simp_all add: example_step_def)
  note t = train_step_noisy_latents [OF example_step_live h2 h3]
  from t have i: "prepare_latents example_config () ''latents''
        = Some (FloatTensor (latents example_step))
      \<and> gather (scheduler_sigmas example_config)
          (map (\<lambda>u. long (u * real_of_int (num_train_timesteps example_config)))
             (density example_draws (length example_prompts)))
         = Inr (sigmas example_step)"
    by simp
  from t have n: "noise example_step = randn example_draws (map length (latents example_step))"
    by blast
  have shape: "map length (latents example_step) = [2, 2, 2]" by (simp add: x)
  have r: "randn example_draws [2, 2, 2] = [[1, 1], [1, 1], [1, 1]]"
    by (simp add: example_draws_def numeral_2_eq_2)
  from n shape r have n': "noise example_step = [[1, 1], [1, 1], [1, 1]]" by simp
  from t b0 s0 have a0: "noisy_latents example_step ! 0 = noise example_step ! 0"
    by blast
  from t b1 j0 s1 have a1: "noisy_latents example_step ! 1 ! 0
        = (latents example_step ! 1 ! 0 + noise example_step ! 1 ! 0) / 2"
    by blast
  from t b2 s2 have a2: "noisy_latents example_step ! 2 = latents example_step ! 2"
    by blast
  from i x sg have i1: "prepare_latents example_config () ''latents''
       = Some (FloatTensor [[2, 4], [6, 8], [10, 12]])"
    and i2: "gather (scheduler_sigmas example_config)
        (map (\<lambda>u. long (u * real_of_int (num_train_timesteps example_config)))
           (density example_draws (length example_prompts)))
       = Inr [1, 1 / 2, 0]"
    by simp_all
  from a0 a1 a2 sg h2 h3 example_step_live i1 i2 x r n' nl show ?thesis by blast
qed

subsection \<open>The training step: target and loss\<close>







subsection \<open>The training step: caption dropout\<close>

lemma fill_zero:
  "fill v 0 = Inr v' \<Longrightarrow> is_tensor v \<and> v' = zero_fill v"
  by (cases v) auto

lemma all_zero_zero_fill: "is_tensor v \<Longrightarrow> all_zero (zero_fill v)"
  by (cases v) (auto simp: list_all_iff)

lemma caption_dropout_zero_skips:
  "\<not> (caption_dropout_technique a = ''zero'' \<and> r < caption_dropout_p a) \<Longrightarrow>
   caption_dropout_zero a r tc = Inr tc"
  by (auto simp: caption_dropout_zero_def)

lemma caption_dropout_zero_fires:
  assumes "caption_dropout_technique a = ''zero''" and "r < caption_dropout_p a"
    and "caption_dropout_zero a r tc = Inr tc'"
  shows "\<exists>pe pm. tc ''prompt_embeds'' = Some pe \<and> is_tensor pe
           \<and> tc ''prompt_attention_mask'' = Some pm \<and> is_tensor pm
           \<and> (\<forall>pp. tc ''pooled_prompt_embeds'' = Some pp \<longrightarrow> is_tensor pp)
           \<and> tc' = (\<lambda>k. if k = ''prompt_embeds'' \<or> k = ''prompt_attention_mask''
                             \<or> k = ''pooled_prompt_embeds''
                          then map_option zero_fill (tc k) else tc k)"
proof -
  from assms obtain pe pe' pm pm' where
    pe: "tc ''prompt_embeds'' = Some pe" "fill pe 0 = Inr pe'"
    and pm: "tc ''prompt_attention_mask'' = Some pm" "fill pm 0 = Inr pm'"
    and rest: "(case tc ''pooled_prompt_embeds'' of
                  None \<Rightarrow> Inr (tc(''prompt_embeds'' \<mapsto> pe', ''prompt_attention_mask'' \<mapsto> pm'))
                | Some pp \<Rightarrow> bind_err (fill pp 0) (\<lambda>pp'.
                    Inr (tc(''prompt_embeds'' \<mapsto> pe', ''prompt_attention_mask'' \<mapsto> pm',
                            ''pooled_prompt_embeds'' \<mapsto> pp')))) = Inr tc'"
    by (auto simp: caption_dropout_zero_def bind_err_def lookup_def Let_def
        split: option.splits sum.splits)
  from pe(2) have pe': "is_tensor pe" "pe' = zero_fill pe" by (auto dest: fill_zero)
  from pm(2) have pm': "is_tensor pm" "pm' = zero_fill pm" by (auto dest: fill_zero)
  show ?thesis
  proof (cases "tc ''pooled_prompt_embeds''")
    case None
    with rest have "tc' = tc(''prompt_embeds'' \<mapsto> pe', ''prompt_attention_mask'' \<mapsto> pm')"
      by simp
    with None pe pm pe' pm' show ?thesis by (auto simp: fun_eq_iff)
  next
    case (Some pp)
    with rest obtain pp' where pp: "fill pp 0 = Inr pp'"
      and tc': "tc' = tc(''prompt_embeds'' \<mapsto> pe', ''prompt_attention_mask'' \<mapsto> pm',
                         ''pooled_prompt_embeds'' \<mapsto> pp')"
      by (auto simp: bind_err_def split: sum.splits)
    from pp have "is_tensor pp" "pp' = zero_fill pp" by (auto dest: fill_zero)
    with Some tc' pe pm pe' pm' show ?thesis by (auto simp: fun_eq_iff)
  qed
qed

lemma train_step_text_conditions:
  assumes "train_step cfg a d b = Inr out"
    and "batch_conditions cfg a d b = Inr (enc, lc, tc0, bs)"
  shows "encoded_prompts out = enc"
    and "caption_dropout_zero a (random_zero d) tc0 = Inr (text_conditions out)"
  using assms
  by (auto simp: train_step_def bind_err_def Let_def split: sum.splits prod.splits)


text \<open>
  Claim C8, which fails as stated: on a batch of precomputed conditions, technique
  \<^verbatim>\<open>"empty"\<close> drops nothing, whatever the probability.  Here precomputation is
  enabled, the technique is \<^verbatim>\<open>"empty"\<close> and the probability is 1; the step
  completes, no prompt is encoded, and the embeddings and the mask loaded from the
  cache reach the denoiser as they were loaded.
\<close>

theorem caption_dropout_precomputed_counterexample:
  "precompute_conditions (example_args_precomputed\<lparr>caption_dropout_p := 1\<rparr>)
   \<and> caption_dropout_technique (example_args_precomputed\<lparr>caption_dropout_p := 1\<rparr>) = ''empty''
   \<and> caption_dropout_p (example_args_precomputed\<lparr>caption_dropout_p := 1\<rparr>) = 1
   \<and> 0 \<le> random_empty example_draws \<and> random_empty example_draws < 1
   \<and> 0 \<le> random_zero example_draws \<and> random_zero example_draws < 1
   \<and> train_step example_config (example_args_precomputed\<lparr>caption_dropout_p := 1\<rparr>)
        example_draws (Precomputed example_latent_conditions example_text_conditions)
     = Inr example_step_precomputed
   \<and> encoded_prompts example_step_precomputed = None
   \<and> text_conditions example_step_precomputed ''prompt_embeds''
       = Some (FloatTensor [[5, 7], [5, 7], [6, 7]])
   \<and> text_conditions example_step_precomputed ''prompt_attention_mask''
       = Some (BoolTensor [[True, True], [True, True], [True, True]])"
  by (simp add: train_step_def batch_conditions_def caption_dropout_zero_def
      example_config_def example_args_def example_args_precomputed_def example_draws_def
      example_latent_conditions_def example_text_conditions_def
      example_step_def example_step_precomputed_def
      bind_err_def lookup_def Let_def flow_noisy_latents_def flow_target_def flow_loss_def
      add_t_def sub_t_def scale_rows_def pow_t_def mean_def mean_rows_def long_def
      index_tensor_def)

text \<open>
  Claim C8 as amended.  Let a step complete with \<^verbatim>\<open>caption_dropout_p\<close> equal to 1
  and both values of \<^verbatim>\<open>random.random()\<close> in the half-open interval from 0 to 1,
  and let \<open>enc\<close> and \<open>tc0\<close> be the prompts encoded and the text conditions obtained
  for the batch (lines 631-671).
  Under technique \<^verbatim>\<open>"empty"\<close>, a live batch of \<open>k\<close> prompts is conditioned on \<open>k\<close>
  empty strings, whereas for a batch of precomputed conditions no prompt is encoded
  and the text conditions are the ones loaded; in both cases the text conditions
  reach the denoiser as they were obtained: nothing is zeroed.
  Under technique \<^verbatim>\<open>"zero"\<close>, a live batch is conditioned on its own prompts and a
  batch of precomputed conditions brings the ones loaded; the keys
  \<^verbatim>\<open>prompt_embeds\<close> and \<^verbatim>\<open>prompt_attention_mask\<close> are present, these two and
  \<^verbatim>\<open>pooled_prompt_embeds\<close> (when present) reach the denoiser as tensors of the same
  shape without a non-zero or true entry, and every other key is unchanged.
\<close>

theorem caption_dropout_certain:
  assumes "train_step cfg a d b = Inr out"
    and "batch_conditions cfg a d b = Inr (enc, lc, tc0, bs)"
    and "caption_dropout_p a = 1"
    and "0 \<le> random_empty d \<and> random_empty d < 1"
    and "0 \<le> random_zero d \<and> random_zero d < 1"
  shows "encoded_prompts out = enc
       \<and> (caption_dropout_technique a = ''empty'' \<longrightarrow>
            (\<forall>videos prompts. b = Live videos prompts \<longrightarrow>
                enc = Some (replicate (length prompts) '''')
              \<and> tc0 = prepare_conditions cfg (replicate (length prompts) ''''))
            \<and> (\<forall>lc0 tc. b = Precomputed lc0 tc \<longrightarrow> enc = None \<and> tc0 = tc)
            \<and> text_conditions out = tc0)
       \<and> (caption_dropout_technique a = ''zero'' \<longrightarrow>
            (\<forall>videos prompts. b = Live videos prompts \<longrightarrow>
                enc = Some prompts \<and> tc0 = prepare_conditions cfg prompts)
            \<and> (\<forall>lc0 tc. b = Precomputed lc0 tc \<longrightarrow> enc = None \<and> tc0 = tc)
            \<and> tc0 ''prompt_embeds'' \<noteq> None \<and> tc0 ''prompt_attention_mask'' \<noteq> None
            \<and> (\<forall>k. text_conditions out k =
                  (if k = ''prompt_embeds'' \<or> k = ''prompt_attention_mask''
                      \<or> k = ''pooled_prompt_embeds''
                   then map_option zero_fill (tc0 k) else tc0 k))
            \<and> (\<forall>k v. (k = ''prompt_embeds'' \<or> k = ''prompt_attention_mask''
                      \<or> k = ''pooled_prompt_embeds'')
                   \<and> text_conditions out k = Some v \<longrightarrow> all_zero v))"
proof -
  note tc = train_step_text_conditions [OF assms(1,2)]
  have cache: "enc = None \<and> tc0 = tc" if "b = Precomputed lc0 tc" for lc0 tc
    using assms(2) that
    by (auto simp: batch_conditions_def Let_def split: if_splits dest!: bind_err_InrD)
  have empty: "(\<forall>videos prompts. b = Live videos prompts \<longrightarrow>
                enc = Some (replicate (length prompts) '''')
              \<and> tc0 = prepare_conditions cfg (replicate (length prompts) ''''))
            \<and> (\<forall>lc0 tc. b = Precomputed lc0 tc \<longrightarrow> enc = None \<and> tc0 = tc)
            \<and> text_conditions out = tc0"
    if t: "caption_dropout_technique a = ''empty''"
  proof -
    from t have "caption_dropout_zero a (random_zero d) tc0 = Inr tc0"
      by (simp add: caption_dropout_zero_skips)
    with tc(2) have "text_conditions out = tc0" by simp
    moreover have "enc = Some (replicate (length prompts) '''')
              \<and> tc0 = prepare_conditions cfg (replicate (length prompts) '''')"
      if "b = Live videos prompts" for videos prompts
      using assms(2,3,4) t that
      by (auto simp: batch_conditions_def Let_def split: if_splits)
    ultimately show ?thesis using cache by blast
  qed
  have zero: "(\<forall>videos prompts. b = Live videos prompts \<longrightarrow>
                enc = Some prompts \<and> tc0 = prepare_conditions cfg prompts)
            \<and> (\<forall>lc0 tc. b = Precomputed lc0 tc \<longrightarrow> enc = None \<and> tc0 = tc)
            \<and> tc0 ''prompt_embeds'' \<noteq> None \<and> tc0 ''prompt_attention_mask'' \<noteq> None
            \<and> (\<forall>k. text_conditions out k =
                  (if k = ''prompt_embeds'' \<or> k = ''prompt_attention_mask''
                      \<or> k = ''pooled_prompt_embeds''
                   then map_option zero_fill (tc0 k) else tc0 k))
            \<and> (\<forall>k v. (k = ''prompt_embeds'' \<or> k = ''prompt_attention_mask''
                      \<or> k = ''pooled_prompt_embeds'')
                   \<and> text_conditions out k = Some v \<longrightarrow> all_zero v)"
    if t: "caption_dropout_technique a = ''zero''"
  proof -
    have live: "enc = Some prompts \<and> tc0 = prepare_conditions cfg prompts"
      if "b = Live videos prompts" for videos prompts
      using assms(2) t that
      by (auto simp: batch_conditions_def Let_def split: if_splits)
    from assms(3,5) have "random_zero d < caption_dropout_p a" by simp
    from caption_dropout_zero_fires [OF t this tc(2)]
    obtain pe pm where pe: "tc0 ''prompt_embeds'' = Some pe" "is_tensor pe"
      and pm: "tc0 ''prompt_attention_mask'' = Some pm" "is_tensor pm"
      and pp: "\<forall>pp. tc0 ''pooled_prompt_embeds'' = Some pp \<longrightarrow> is_tensor pp"
      and eq: "text_conditions out =
                 (\<lambda>k. if k = ''prompt_embeds'' \<or> k = ''prompt_attention_mask''
                          \<or> k = ''pooled_prompt_embeds''
                       then map_option zero_fill (tc0 k) else tc0 k)"
      by blast
    have keys: "text_conditions out k =
                  (if k = ''prompt_embeds'' \<or> k = ''prompt_attention_mask''
                      \<or> k = ''pooled_prompt_embeds''
                   then map_option zero_fill (tc0 k) else tc0 k)" for k
      by (subst eq) (rule refl)
    have zeros: "all_zero v"
      if "k = ''prompt_embeds'' \<or> k = ''prompt_attention_mask'' \<or> k = ''pooled_prompt_embeds''"
        and "text_conditions out k = Some v" for k v
    proof -
      from that keys [of k] obtain v0 where v0: "tc0 k = Some v0" "v = zero_fill v0"
        by (auto split: if_splits)
      from that(1) v0(1) pe pm pp have "is_tensor v0" by auto
      with v0(2) show ?thesis by (simp add: all_zero_zero_fill)
    qed
    from live cache pe(1) pm(1) keys zeros show ?thesis by blast
  qed
  from tc(1) empty zero show ?thesis by blast
qed

lemma example_batch_conditions_empty:
  "batch_conditions example_config example_args example_draws (Live () example_prompts)
     = Inr (Some [[], [], []],
            [''latents'' \<mapsto> FloatTensor [[2, 4], [6, 8], [10, 12]]],
            [''prompt_embeds'' \<mapsto> FloatTensor [[0, 7], [0, 7], [0, 7]],
             ''prompt_attention_mask'' \<mapsto>
               BoolTensor [[True, False], [True, False], [True, False]]],
            3)"
  by (simp add: batch_conditions_def example_config_def example_args_def example_draws_def
      example_prompts_def Let_def)

lemma example_batch_conditions_zero:
  "batch_conditions example_config example_args_zero example_draws (Live () example_prompts)
     = Inr (Some example_prompts,
            [''latents'' \<mapsto> FloatTensor [[2, 4], [6, 8], [10, 12]]],
            example_text_conditions, 3)"
  by (simp add: batch_conditions_def example_config_def example_args_def example_args_zero_def
      example_draws_def example_prompts_def example_text_conditions_def Let_def)

lemma example_step_live_zero:
  "train_step example_config example_args_zero example_draws (Live () example_prompts)
     = Inr example_step_zero"
  by (simp add: train_step_def batch_conditions_def caption_dropout_zero_def
      example_config_def example_args_def example_args_zero_def example_draws_def
      example_prompts_def example_step_def example_step_zero_def
      bind_err_def lookup_def Let_def flow_noisy_latents_def flow_target_def flow_loss_def
      add_t_def sub_t_def scale_rows_def pow_t_def mean_def mean_rows_def long_def
      index_tensor_def)

lemma example_step_cache_certain:
  "train_step example_config (example_args_precomputed\<lparr>caption_dropout_p := 1\<rparr>)
     example_draws (Precomputed example_latent_conditions example_text_conditions)
     = Inr example_step_precomputed"
  by (simp add: train_step_def batch_conditions_def caption_dropout_zero_def
      example_config_def example_args_def example_args_precomputed_def example_draws_def
      example_latent_conditions_def example_text_conditions_def
      example_step_def example_step_precomputed_def
      bind_err_def lookup_def Let_def flow_noisy_latents_def flow_target_def flow_loss_def
      add_t_def sub_t_def scale_rows_def pow_t_def mean_def mean_rows_def long_def
      index_tensor_def)

lemma example_batch_conditions_cache:
  "batch_conditions example_config (example_args_precomputed\<lparr>caption_dropout_p := 1\<rparr>)
     example_draws (Precomputed example_latent_conditions example_text_conditions)
     = Inr (None, example_latent_conditions, example_text_conditions, 3)"
  by (simp add: batch_conditions_def example_config_def example_args_def
      example_args_precomputed_def example_draws_def example_latent_conditions_def
      bind_err_def lookup_def Let_def fun_upd_idem)

theorem caption_dropout_certain_witness:
  "train_step example_config example_args example_draws (Live () example_prompts)
     = Inr example_step
   \<and> caption_dropout_p example_args = 1 \<and> caption_dropout_technique example_args = ''empty''
   \<and> 0 \<le> random_empty example_draws \<and> random_empty example_draws < 1
   \<and> 0 \<le> random_zero example_draws \<and> random_zero example_draws < 1
   \<and> encoded_prompts example_step = Some ['''', '''', '''']
   \<and> text_conditions example_step = prepare_conditions example_config ['''', '''', '''']
   \<and> train_step example_config example_args_zero example_draws (Live () example_prompts)
     = Inr example_step_zero
   \<and> caption_dropout_p example_args_zero = 1
   \<and> caption_dropout_technique example_args_zero = ''zero''
   \<and> encoded_prompts example_step_zero = Some example_prompts
   \<and> text_conditions example_step_zero ''prompt_embeds''
       = Some (FloatTensor [[0, 0], [0, 0], [0, 0]])
   \<and> all_zero (FloatTensor [[0, 0], [0, 0], [0, 0]])
   \<and> text_conditions example_step_zero ''prompt_attention_mask''
       = Some (BoolTensor [[False, False], [False, False], [False, False]])
   \<and> all_zero (BoolTensor [[False, False], [False, False], [False, False]])
   \<and> train_step example_config (example_args_precomputed\<lparr>caption_dropout_p := 1\<rparr>)
        example_draws (Precomputed example_latent_conditions example_text_conditions)
     = Inr example_step_precomputed
   \<and> caption_dropout_p (example_args_precomputed\<lparr>caption_dropout_p := 1\<rparr>) = 1
   \<and> caption_dropout_technique (example_args_precomputed\<lparr>caption_dropout_p := 1\<rparr>) = ''empty''
   \<and> encoded_prompts example_step_precomputed = None
   \<and> text_conditions example_step_precomputed = example_text_conditions"
proof -
  have p: "caption_dropout_p example_args = 1" "caption_dropout_p example_args_zero = 1"
    by (simp_all add: example_args_def example_args_zero_def)
  have te: "caption_dropout_technique example_args = ''empty''"
    and tz: "caption_dropout_technique example_args_zero = ''zero''"
    by (simp_all add: example_args_def example_args_zero_def)
  have re: "0 \<le> random_empty example_draws \<and> random_empty example_draws < 1"
    and rz: "0 \<le> random_zero example_draws \<and> random_zero example_draws < 1"
    by (simp_all add: example_draws_def)
  have l: "length example_prompts = 3" by (simp add: example_prompts_def)
  have r3: "replicate (length example_prompts) '''' = ['''', '''', '''']"
    by (simp add: l numeral_3_eq_3)
  note e = caption_dropout_certain
    [OF example_step_live example_batch_conditions_empty p(1) re rz]
  note e1 = e [THEN conjunct1]
  note ee = e [THEN conjunct2, THEN conjunct1, THEN mp, OF te]
  note el = ee [THEN conjunct1, THEN spec, THEN spec, THEN mp, OF refl, THEN conjunct2]
  note et = ee [THEN conjunct2, THEN conjunct2]
  from el et have e2: "text_conditions example_step
      = prepare_conditions example_config ['''', '''', '''']"
    by (simp only: r3)
  note z = caption_dropout_certain
    [OF example_step_live_zero example_batch_conditions_zero p(2) re rz]
  note z1 = z [THEN conjunct1]
  note zz = z [THEN conjunct2, THEN conjunct2, THEN mp, OF tz]
  note za = zz [THEN conjunct2, THEN conjunct2, THEN conjunct2, THEN conjunct2, THEN conjunct2]
  have k1: "text_conditions example_step_zero ''prompt_embeds''
       = Some (FloatTensor [[0, 0], [0, 0], [0, 0]])"
    and k2: "text_conditions example_step_zero ''prompt_attention_mask''
       = Some (BoolTensor [[False, False], [False, False], [False, False]])"
    by (simp_all add: example_step_zero_def)
  have z2: "all_zero (FloatTensor [[0, 0], [0, 0], [0, 0]])"
    by (rule za [THEN spec, THEN spec, THEN mp, OF conjI [OF disjI1 [OF refl] k1]])
  have z3: "all_zero (BoolTensor [[False, False], [False, False], [False, False]])"
    by (rule za [THEN spec, THEN spec, THEN mp, OF conjI [OF disjI2 [OF disjI1 [OF refl]] k2]])
  have pc: "caption_dropout_p (example_args_precomputed\<lparr>caption_dropout_p := 1\<rparr>) = 1"
    and tc: "caption_dropout_technique (example_args_precomputed\<lparr>caption_dropout_p := 1\<rparr>)
               = ''empty''"
    by (simp_all add: example_args_precomputed_def example_args_def)
  note c = caption_dropout_certain
    [OF example_step_cache_certain example_batch_conditions_cache pc re rz]
  note c1 = c [THEN conjunct1]
  note c2 = c [THEN conjunct2, THEN conjunct1, THEN mp, OF tc, THEN conjunct2, THEN conjunct2]
  show ?thesis
    by (intro conjI)
      (rule example_step_live re [THEN conjunct1] re [THEN conjunct2] rz [THEN conjunct1]
        rz [THEN conjunct2] p te tz e1 e2 example_step_live_zero z1 k1 z2 k2 z3
        example_step_cache_certain pc tc c1 c2)+
qed

subsection \<open>Caption dropout when training from precomputed conditions\<close>














subsection \<open>The training loop\<close>

text \<open>
  Claim C3, where the code departs from it.  The run: four batches per epoch,
  no accumulation, \<^verbatim>\<open>train_steps = 6\<close> (so \<^verbatim>\<open>prepare_for_training\<close> sets two
  epochs), resumed from the checkpoint of step 3, taken after three passes (so the
  first epoch is 0 and the dataloader starts at its first batch).  The third pass reaches global step 6 and
  breaks out of the step loop; the epoch loop then starts epoch 1, whose first pass
  trains once more and ends at global step 7.
\<close>

theorem train_resumed_runs_past_train_steps:
  "train example_args_resumed True 4 (Some (3, 3)) =
     Inr \<lparr>global_step = 7, accumulate_step = 7,
          passes =
            [\<lparr>in_epoch = 0, at_step = 0, sync_gradients = True, global_step_after = 4,
              saved_state = False, validated = False\<rparr>,
             \<lparr>in_epoch = 0, at_step = 1, sync_gradients = True, global_step_after = 5,
              saved_state = False, validated = False\<rparr>,
             \<lparr>in_epoch = 0, at_step = 2, sync_gradients = True, global_step_after = 6,
              saved_state = True, validated = False\<rparr>,
             \<lparr>in_epoch = 1, at_step = 0, sync_gradients = True, global_step_after = 7,
              saved_state = False, validated = False\<rparr>],
          epoch_validations = []\<rparr>"
  by (simp add: train_def prepare_for_training_def get_latest_ckpt_path_to_resume_from_def
      example_args_resumed_def example_args_def ceil_div_def bind_err_def py_mod_def
      step_body_def accumulate_def upt_examples Let_def)

text \<open>
  Claim C4, where the code departs from it.  The run: four batches per epoch
  accumulated in pairs, validation every 2 steps, cold start.  The first pass is
  inside an accumulation window (gradients are not synchronised and the global
  step stays 0), and \<^verbatim>\<open>self.validate\<close> is called in it, since \<^verbatim>\<open>0 % 2 == 0\<close>.
\<close>

theorem train_accumulating_validates_inside_window:
  "train example_args_accumulating True 4 None =
     Inr \<lparr>global_step = 2, accumulate_step = 0,
          passes =
            [\<lparr>in_epoch = 0, at_step = 0, sync_gradients = False, global_step_after = 0,
              saved_state = False, validated = True\<rparr>,
             \<lparr>in_epoch = 0, at_step = 1, sync_gradients = True, global_step_after = 1,
              saved_state = False, validated = False\<rparr>,
             \<lparr>in_epoch = 0, at_step = 2, sync_gradients = False, global_step_after = 1,
              saved_state = False, validated = False\<rparr>,
             \<lparr>in_epoch = 0, at_step = 3, sync_gradients = True, global_step_after = 2,
              saved_state = True, validated = True\<rparr>],
          epoch_validations = []\<rparr>"
  by (simp add: train_def prepare_for_training_def get_latest_ckpt_path_to_resume_from_def
      example_args_accumulating_def example_args_def ceil_div_def bind_err_def py_mod_def
      step_body_def accumulate_def upt_examples Let_def)

text \<open>
  The half of claim C4 that the code keeps: in every run, a pass in which the state
  was saved is a gradient-synchronisation boundary.
\<close>

lemma step_body_saves_at_sync:
  "step_body a w e k l s = Inr s' \<Longrightarrow> saves_at_sync s \<Longrightarrow> saves_at_sync s'"
  by (auto simp: step_body_def accumulate_def bind_err_def py_mod_def saves_at_sync_def Let_def
      split: if_splits option.splits)

lemma step_loop_saves_at_sync:
  "step_loop a w n e l ks s = Inr s' \<Longrightarrow> saves_at_sync s \<Longrightarrow> saves_at_sync s'"
proof (induction ks arbitrary: s)
  case Nil
  then show ?case by simp
next
  case (Cons k ks)
  from Cons.prems(1) obtain s1 where b: "step_body a w e k (k + 1 = l) s = Inr s1"
    and r: "(if global_step s1 \<ge> n then Inr s1 else step_loop a w n e l ks s1) = Inr s'"
    by (auto simp: bind_err_def split: sum.splits)
  from step_body_saves_at_sync [OF b Cons.prems(2)] have "saves_at_sync s1" .
  with r Cons.IH show ?case by (auto split: if_splits)
qed

lemma epoch_loop_saves_at_sync:
  "epoch_loop a w n l es s = Inr s' \<Longrightarrow> saves_at_sync s \<Longrightarrow> saves_at_sync s'"
proof (induction es arbitrary: s)
  case Nil
  then show ?case by simp
next
  case (Cons e es)
  from Cons.prems(1) obtain s1 v where b: "step_loop a w n e l [0..<l] s = Inr s1"
    and r: "epoch_loop a w n l es
              (if v then s1\<lparr>epoch_validations := epoch_validations s1 @ [(e, global_step s1)]\<rparr>
               else s1) = Inr s'"
    by (auto simp: bind_err_def split: sum.splits)
  from step_loop_saves_at_sync [OF b Cons.prems(2)] have "saves_at_sync s1" .
  then have "saves_at_sync
      (if v then s1\<lparr>epoch_validations := epoch_validations s1 @ [(e, global_step s1)]\<rparr> else s1)"
    by (simp add: saves_at_sync_def)
  with r Cons.IH show ?case by blast
qed

lemma train_saves_at_sync:
  "train a w l found = Inr s \<Longrightarrow> m \<in> set (passes s) \<Longrightarrow> saved_state m \<Longrightarrow> sync_gradients m"
proof -
  assume t: "train a w l found = Inr s" and m: "m \<in> set (passes s)" "saved_state m"
  from t obtain n es g c where
    "epoch_loop a w n l es
       \<lparr>global_step = g, accumulate_step = c, passes = [], epoch_validations = []\<rparr> = Inr s"
    by (auto simp: train_def bind_err_def split: sum.splits prod.splits)
  from epoch_loop_saves_at_sync [OF this] have "saves_at_sync s"
    by (simp add: saves_at_sync_def)
  with m show ?thesis by (simp add: saves_at_sync_def)
qed

subsection \<open>The training loop on a cold start\<close>

lemma step_body_result:
  assumes g: "gradient_accumulation_steps a = int g" "1 \<le> g"
    and c: "w \<longrightarrow> checkpointing_steps a \<noteq> 0"
    and v: "validation_every_n_steps a \<noteq> Some 0"
    and k: "accumulate_step s = int k"
  shows "\<exists>sv vl. step_body a w e j fin s =
           Inr (s\<lparr>global_step := global_step s + (if fin \<or> Suc k mod g = 0 then 1 else 0),
                  accumulate_step := (if fin then 0 else int k + 1),
                  passes := passes s @
                    [\<lparr>in_epoch = e, at_step = j, sync_gradients = (fin \<or> Suc k mod g = 0),
                      global_step_after =
                        global_step s + (if fin \<or> Suc k mod g = 0 then 1 else 0),
                      saved_state = sv, validated = vl\<rparr>]\<rparr>)"
proof -
  have m: "(int k + 1) mod int g = 0 \<longleftrightarrow> Suc k mod g = 0"
    by (metis of_nat_Suc of_nat_eq_0_iff of_nat_mod add.commute plus_1_eq_Suc of_nat_add of_nat_1)
  from g have g0: "int g \<noteq> 0" by simp
  show ?thesis
    using c v g0
    by (cases "validation_every_n_steps a"; cases fin; cases "Suc k mod g = 0"; cases w)
       (simp_all add: step_body_def accumulate_def bind_err_def py_mod_def Let_def g(1) k m,
        blast+)
qed

lemma step_loop_epoch:
  assumes g: "gradient_accumulation_steps a = int g" "1 \<le> g"
    and c: "w \<longrightarrow> checkpointing_steps a \<noteq> 0"
    and v: "validation_every_n_steps a \<noteq> Some 0"
  shows "k < L \<Longrightarrow> accumulate_step s = int k \<Longrightarrow> global_step s = G0 + int (k div g) \<Longrightarrow>
         global_step s < T \<Longrightarrow> \<forall>m \<in> set (passes s). global_step_after m < T \<Longrightarrow>
         \<exists>s'. step_loop a w T e L [k..<L] s = Inr s'
            \<and> epoch_validations s' = epoch_validations s
            \<and> (G0 + int ((L - 1) div g) + 1 < T \<longrightarrow>
                  global_step s' = G0 + int ((L - 1) div g) + 1 \<and> accumulate_step s' = 0
                \<and> (\<forall>m \<in> set (passes s'). global_step_after m < T))
            \<and> (T \<le> G0 + int ((L - 1) div g) + 1 \<longrightarrow>
                  global_step s' = T
                \<and> (\<forall>m \<in> set (butlast (passes s')). global_step_after m < T))"
proof (induction "L - k" arbitrary: k s)
  case 0
  then show ?case by simp
next
  case (Suc n)
  let ?sync = "Suc k = L \<or> Suc k mod g = 0"
  let ?G1 = "global_step s + (if ?sync then 1 else 0)"
  from step_body_result [OF g c v Suc.prems(2), of e k "k + 1 = L"]
  obtain sv vl where body: "step_body a w e k (k + 1 = L) s = Inr
      (s\<lparr>global_step := ?G1, accumulate_step := (if Suc k = L then 0 else int k + 1),
         passes := passes s @
           [\<lparr>in_epoch = e, at_step = k, sync_gradients = ?sync, global_step_after = ?G1,
             saved_state = sv, validated = vl\<rparr>]\<rparr>)"
    (is "_ = Inr ?s1")
    by auto
  have upt: "[k..<L] = k # [Suc k..<L]" using Suc.prems(1) by (simp add: upt_rec)
  have "step_loop a w T e L [k..<L] s =
      (if T \<le> global_step ?s1 then Inr ?s1 else step_loop a w T e L [Suc k..<L] ?s1)"
    unfolding upt step_loop.simps body bind_err_def by (simp only: sum.case)
  moreover have "global_step ?s1 = ?G1" by simp
  ultimately have loop: "step_loop a w T e L [k..<L] s =
      (if T \<le> ?G1 then Inr ?s1 else step_loop a w T e L [Suc k..<L] ?s1)"
    by (simp only:)
  show ?case
  proof (cases "Suc k = L")
    case True
    then have kL: "k = L - 1" by simp
    have G1: "?G1 = G0 + int ((L - 1) div g) + 1"
      using True Suc.prems(3) by (simp add: kL)
    have res: "step_loop a w T e L [k..<L] s = Inr ?s1"
      using True by (simp add: loop)
    have le: "?G1 \<le> T" using Suc.prems(4) by simp
    show ?thesis
      using res G1 le True Suc.prems(5)
      by (intro exI [where x = ?s1]) auto
  next
    case False
    with Suc.prems(1) have lt: "Suc k < L" by simp
    have G1: "?G1 = G0 + int (Suc k div g)"
      using False Suc.prems(3) by (simp add: div_Suc)
    have mono: "int (Suc k div g) \<le> int ((L - 1) div g)"
      using lt by (simp add: div_le_mono)
    show ?thesis
    proof (cases "T \<le> ?G1")
      case True
      have res: "step_loop a w T e L [k..<L] s = Inr ?s1"
        using True by (simp only: loop if_True)
      have "?G1 \<le> global_step s + 1" by simp
      with True Suc.prems(4) have eq: "?G1 = T" by linarith
      have big: "T \<le> G0 + int ((L - 1) div g) + 1"
        using eq G1 mono by linarith
      show ?thesis
        using res eq big False Suc.prems(5)
        by (intro exI [where x = ?s1]) auto
    next
      case nb: False
      have res: "step_loop a w T e L [k..<L] s = step_loop a w T e L [Suc k..<L] ?s1"
        using nb by (simp only: loop if_False)
      have n: "n = L - Suc k" using Suc.hyps(2) by simp
      have p1: "accumulate_step ?s1 = int (Suc k)" using False by simp
      have p2: "global_step ?s1 = G0 + int (Suc k div g)" using G1 by simp
      have p3: "global_step ?s1 < T" using nb by simp
      have p4: "\<forall>m \<in> set (passes ?s1). global_step_after m < T"
        using nb Suc.prems(5) by auto
      from Suc.hyps(1) [OF n lt p1 p2 p3 p4]
      show ?thesis unfolding res by simp
    qed
  qed
qed

lemma less_ceil_div:
  assumes "0 < E"
  shows "e < nat \<lceil>real_of_int T / real_of_int E\<rceil> \<longleftrightarrow> int e * E < T"
proof -
  have "e < nat \<lceil>real_of_int T / real_of_int E\<rceil> \<longleftrightarrow> int e < \<lceil>real_of_int T / real_of_int E\<rceil>"
    by linarith
  also have "\<dots> \<longleftrightarrow> real_of_int (int e) < real_of_int T / real_of_int E"
    by (rule less_ceiling_iff)
  also have "\<dots> \<longleftrightarrow> real_of_int (int e) * real_of_int E < real_of_int T"
    using assms by (simp add: pos_less_divide_eq)
  also have "\<dots> \<longleftrightarrow> int e * E < T"
    by (metis of_int_less_iff of_int_mult)
  finally show ?thesis .
qed

lemma epoch_trigger_result:
  "validation_every_n_epochs a \<noteq> Some 0 \<Longrightarrow>
   \<exists>b. (case validation_every_n_epochs a of
           None \<Rightarrow> Inr False
         | Some n \<Rightarrow> bind_err (py_mod (int e + 1) n) (\<lambda>m. Inr (m = 0))) = Inr b"
  by (cases "validation_every_n_epochs a") (auto simp: py_mod_def bind_err_def)

lemma epoch_loop_cold:
  assumes g: "gradient_accumulation_steps a = int g" "1 \<le> g"
    and c: "w \<longrightarrow> checkpointing_steps a \<noteq> 0"
    and v: "validation_every_n_steps a \<noteq> Some 0"
    and ve: "validation_every_n_epochs a \<noteq> Some 0"
    and L: "1 \<le> L" and E: "E = int ((L - 1) div g) + 1"
    and M: "M = nat \<lceil>real_of_int T / real_of_int E\<rceil>"
  shows "int e * E < T \<Longrightarrow> accumulate_step s = 0 \<Longrightarrow> global_step s = int e * E \<Longrightarrow>
         \<forall>m \<in> set (passes s). global_step_after m < T \<Longrightarrow>
         \<exists>s'. epoch_loop a w T L [e..<M] s = Inr s' \<and> global_step s' = T
            \<and> (\<forall>m \<in> set (butlast (passes s')). global_step_after m < T)"
proof (induction "M - e" arbitrary: e s)
  case 0
  have "0 < E" using E by simp
  from less_ceil_div [OF this, of e T] "0.prems"(1) M have "e < M" by simp
  with "0.hyps" show ?case by simp
next
  case (Suc n)
  have Epos: "0 < E" using E by simp
  from less_ceil_div [OF Epos, of e T] Suc.prems(1) M have eM: "e < M" by simp
  then have upt: "[e..<M] = e # [Suc e..<M]" by (simp add: upt_rec)
  have L0: "0 < L" using L by simp
  have a0: "accumulate_step s = int 0" using Suc.prems(2) by simp
  have g0: "global_step s = int e * E + int (0 div g)" using Suc.prems(3) by simp
  have lt: "global_step s < T" using Suc.prems(1,3) by simp
  from step_loop_epoch [OF g c v L0 a0 g0 lt Suc.prems(4), of e]
  obtain s1 where sl: "step_loop a w T e L [0..<L] s = Inr s1"
    and small: "int e * E + int ((L - 1) div g) + 1 < T \<longrightarrow>
                  global_step s1 = int e * E + int ((L - 1) div g) + 1 \<and> accumulate_step s1 = 0
                \<and> (\<forall>m \<in> set (passes s1). global_step_after m < T)"
    and big: "T \<le> int e * E + int ((L - 1) div g) + 1 \<longrightarrow>
                  global_step s1 = T
                \<and> (\<forall>m \<in> set (butlast (passes s1)). global_step_after m < T)"
    by blast
  from epoch_trigger_result [OF ve, of e] obtain b where
    tr: "(case validation_every_n_epochs a of
           None \<Rightarrow> Inr False
         | Some n \<Rightarrow> bind_err (py_mod (int e + 1) n) (\<lambda>m. Inr (m = 0))) = Inr b"
    by blast
  let ?s2 = "if b then s1\<lparr>epoch_validations := epoch_validations s1 @ [(e, global_step s1)]\<rparr>
             else s1"
  have loop: "epoch_loop a w T L [e..<M] s = epoch_loop a w T L [Suc e..<M] ?s2"
    unfolding upt by (simp only: epoch_loop.simps sl tr bind_err_Inr)
  have next_E: "int (Suc e) * E = int e * E + int ((L - 1) div g) + 1"
    by (simp add: E algebra_simps)
  show ?case
  proof (cases "int (Suc e) * E < T")
    case True
    with small next_E have s1: "global_step s1 = int (Suc e) * E" "accumulate_step s1 = 0"
      "\<forall>m \<in> set (passes s1). global_step_after m < T"
      by simp_all
    have n: "n = M - Suc e" using Suc.hyps(2) by simp
    have p2: "accumulate_step ?s2 = 0" using s1(2) by simp
    have p3: "global_step ?s2 = int (Suc e) * E" using s1(1) by simp
    have p4: "\<forall>m \<in> set (passes ?s2). global_step_after m < T" using s1(3) by simp
    from Suc.hyps(1) [OF n True p2 p3 p4] show ?thesis unfolding loop .
  next
    case False
    with big next_E have s1: "global_step s1 = T"
      "\<forall>m \<in> set (butlast (passes s1)). global_step_after m < T"
      by simp_all
    from less_ceil_div [OF Epos, of "Suc e" T] False M have "\<not> Suc e < M" by simp
    then have nil: "[Suc e..<M] = []" by simp
    have "epoch_loop a w T L [e..<M] s = Inr ?s2"
      unfolding loop nil by (rule epoch_loop.simps(1))
    moreover have "global_step ?s2 = T" using s1(1) by simp
    moreover have "\<forall>m \<in> set (butlast (passes ?s2)). global_step_after m < T"
      using s1(2) by simp
    ultimately show ?thesis by blast
  qed
qed

lemma ceiling_nat_div:
  assumes "1 \<le> g" and "1 \<le> L"
  shows "\<lceil>real L / real g\<rceil> = int ((L - 1) div g) + 1"
proof (rule ceiling_unique)
  let ?q = "(L - 1) div g"
  have "?q * g \<le> L - 1" by (rule div_times_less_eq_dividend)
  with assms(2) have lo: "?q * g < L" by linarith
  have "L - 1 < g + ?q * g" using assms(1) by (intro dividend_less_div_times) simp
  then have hi: "L \<le> (?q + 1) * g" using assms by simp
  have gpos: "0 < real g" using assms by simp
  from lo have "real (?q * g) < real L" by (simp only: of_nat_less_iff)
  then have "real ?q * real g < real L" by simp
  then have "real ?q < real L / real g" using gpos by (simp add: pos_less_divide_eq)
  then show "real_of_int (int ?q + 1) - 1 < real L / real g"
    by simp
  from hi have "real L \<le> real ((?q + 1) * g)" by (simp only: of_nat_le_iff)
  then have "real L \<le> (real ?q + 1) * real g" by (simp add: algebra_simps)
  then have "real L / real g \<le> real ?q + 1" using gpos by (simp add: pos_divide_le_eq)
  then show "real L / real g \<le> real_of_int (int ?q + 1)"
    by simp
qed

text \<open>
  Claim C3 on a cold start.  With \<^verbatim>\<open>train_steps\<close> set and not negative, at least
  one batch per epoch, a positive number of accumulation steps and no zero
  divisor among the trigger periods, the run started without a checkpoint returns,
  ends with the global step equal to \<^verbatim>\<open>train_steps\<close>, and every pass but the last
  ended below \<^verbatim>\<open>train_steps\<close>: the pass that reaches it is the last one.
\<close>

lemma train_cold_start_stops_at_train_steps:
  assumes T: "train_steps a = Some T" "0 \<le> T"
    and g1: "1 \<le> gradient_accumulation_steps a" and L: "1 \<le> len"
    and c: "w \<longrightarrow> checkpointing_steps a \<noteq> 0"
    and v: "validation_every_n_steps a \<noteq> Some 0"
    and ve: "validation_every_n_epochs a \<noteq> Some 0"
  shows "\<exists>s. train a w len None = Inr s \<and> global_step s = T
           \<and> (\<forall>m \<in> set (butlast (passes s)). global_step_after m < T)"
proof -
  define g where "g = nat (gradient_accumulation_steps a)"
  define E where "E = int ((len - 1) div g) + 1"
  define M where "M = nat \<lceil>real_of_int T / real_of_int E\<rceil>"
  have g: "gradient_accumulation_steps a = int g" "1 \<le> g" using g1 by (simp_all add: g_def)
  have Epos: "0 < E" by (simp add: E_def)
  have cd: "ceil_div (int len) (gradient_accumulation_steps a) = Inr E"
    using g by (simp add: ceil_div_def ceiling_nat_div [OF g(2) L] E_def)
  have "0 \<le> real_of_int T / real_of_int E" using Epos T(2) by simp
  then have "0 \<le> \<lceil>real_of_int T / real_of_int E\<rceil>" by (simp add: ceiling_le_iff le_ceiling_iff)
  then have "int M = \<lceil>real_of_int T / real_of_int E\<rceil>" by (simp add: M_def)
  then have cd2: "ceil_div T E = Inr (int M)"
    using Epos by (simp add: ceil_div_def)
  have sched: "prepare_for_training a len len =
      Inr \<lparr>state_train_steps = T, state_train_epochs = int M, num_update_steps_per_epoch = E\<rparr>"
    by (simp add: prepare_for_training_def cd cd2 bind_err_Inr T(1) Let_def)
  let ?s0 = "\<lparr>global_step = 0, accumulate_step = 0, passes = [], epoch_validations = []\<rparr>"
  have tr: "train a w len None = epoch_loop a w T len [0..<M] ?s0"
    by (simp add: train_def sched bind_err_Inr get_latest_ckpt_path_to_resume_from_def)
  show ?thesis
  proof (cases "T = 0")
    case True
    then have "M = 0" by (simp add: M_def)
    with True tr show ?thesis by simp
  next
    case False
    with T(2) have p1: "int 0 * E < T" by simp
    have p2: "accumulate_step ?s0 = 0" and p3: "global_step ?s0 = int 0 * E"
      and p4: "\<forall>m \<in> set (passes ?s0). global_step_after m < T"
      by simp_all
    from epoch_loop_cold [OF g c v ve L E_def M_def p1 p2 p3 p4]
    show ?thesis unfolding tr .
  qed
qed

subsection \<open>Precomputation cache manager: a second invocation\<close>

lemma conditions_loop_files:
  assumes "\<forall>i j. Conditions i j \<in> set (files t) \<longrightarrow> i mod P \<noteq> r \<or> i < m"
  shows "length (filter is_conditions (files (conditions_loop P r idx (enumerate m ds) t)))
           = length (filter is_conditions (files t))
             + length (filter (\<lambda>i. i mod P = r) [m..<m + length ds])
       \<and> filter is_latents (files (conditions_loop P r idx (enumerate m ds) t))
           = filter is_latents (files t)
       \<and> (\<forall>i j. Conditions i j \<in> set (files (conditions_loop P r idx (enumerate m ds) t)) \<longrightarrow>
             Conditions i j \<in> set (files t) \<or> i mod P = r)"
  using assms
proof (induction ds arbitrary: m idx t)
  case Nil
  then show ?case by simp
next
  case (Cons d ds)
  have upt: "[m..<Suc (m + length ds)] = m # [Suc m..<Suc (m + length ds)]"
    by (subst upt_rec) simp
  show ?case
  proof (cases "m mod P \<noteq> r")
    case True
    have pre: "\<forall>i j. Conditions i j \<in> set (files t) \<longrightarrow> i mod P \<noteq> r \<or> i < Suc m"
    proof (intro allI impI)
      fix i j assume "Conditions i j \<in> set (files t)"
      with Cons.prems have "i mod P \<noteq> r \<or> i < m" by blast
      then show "i mod P \<noteq> r \<or> i < Suc m" by auto
    qed
    from Cons.IH [OF pre, of idx] True show ?thesis
      by (simp add: upt del: upt_Suc)
  next
    case False
    then have r: "m mod P = r" by simp
    let ?t1 = "torch_save (Conditions m idx) (emit [PrepareConditions m (fst d)] t)"
    from Cons.prems r have fresh: "Conditions m idx \<notin> set (files t)" by auto
    then have f1: "files ?t1 = files t @ [Conditions m idx]" by simp
    have pre: "\<forall>i j. Conditions i j \<in> set (files ?t1) \<longrightarrow> i mod P \<noteq> r \<or> i < Suc m"
    proof (intro allI impI)
      fix i j assume "Conditions i j \<in> set (files ?t1)"
      then have "Conditions i j \<in> set (files t) \<or> i = m" unfolding f1 by auto
      then show "i mod P \<noteq> r \<or> i < Suc m"
      proof
        assume "Conditions i j \<in> set (files t)"
        with Cons.prems have "i mod P \<noteq> r \<or> i < m" by blast
        then show ?thesis by auto
      next
        assume "i = m"
        then show ?thesis by simp
      qed
    qed
    from Cons.IH [OF pre, of "idx + 1"] r show ?thesis
      by (simp add: upt fresh del: upt_Suc) blast
  qed
qed

lemma latents_loop_files:
  assumes "\<forall>j. Latents r j \<in> set (files t) \<longrightarrow> j < idx"
  shows "length (filter is_latents (files (latents_loop P r idx (enumerate m ds) t)))
           = length (filter is_latents (files t))
             + length (filter (\<lambda>i. i mod P = r) [m..<m + length ds])
       \<and> filter is_conditions (files (latents_loop P r idx (enumerate m ds) t))
           = filter is_conditions (files t)
       \<and> (\<forall>q j. Latents q j \<in> set (files (latents_loop P r idx (enumerate m ds) t)) \<longrightarrow>
             Latents q j \<in> set (files t) \<or> q = r)"
  using assms
proof (induction ds arbitrary: m idx t)
  case Nil
  then show ?case by simp
next
  case (Cons d ds)
  have upt: "[m..<Suc (m + length ds)] = m # [Suc m..<Suc (m + length ds)]"
    by (subst upt_rec) simp
  show ?case
  proof (cases "m mod P \<noteq> r")
    case True
    from Cons.IH [OF Cons.prems, of "Suc m"] True show ?thesis
      by (simp add: upt del: upt_Suc)
  next
    case False
    then have r: "m mod P = r" by simp
    let ?t1 = "torch_save (Latents r idx) (emit [PrepareLatents m] t)"
    from Cons.prems have fresh: "Latents r idx \<notin> set (files t)" by auto
    then have f1: "files ?t1 = files t @ [Latents r idx]" by simp
    have pre: "\<forall>j. Latents r j \<in> set (files ?t1) \<longrightarrow> j < idx + 1"
      unfolding f1 using Cons.prems by (auto simp: less_Suc_eq)
    from Cons.IH [OF pre, of "Suc m"] r show ?thesis
      by (simp add: upt fresh del: upt_Suc) blast
  qed
qed

lemma prepare_precomputations_files:
  assumes "precompute_conditions a" and "batch_size a = 1"
  shows "\<exists>t4 t6. files t4 = files t
           \<and> files t6 = files (conditions_loop P r 0 (enumerate 0 ds) t4)
           \<and> files (snd (prepare_precomputations a P r ds t))
               = (if should_perform_precomputation (files t) (length ds)
                  then files (latents_loop P r 0 (enumerate 0 ds) t6) else files t)"
proof -
  let ?t1 = "emit [LogInfo ''Initializing precomputations''] t"
  let ?t2 = "emit [LogInfo ''Precomputed conditions and latents not found. Running precomputation.'',
                   LoadConditionModels, MoveComponentsToDevice] ?t1"
  let ?t3 = "if caption_dropout_p a > 0 \<and> caption_dropout_technique a = ''empty''
             then emit [LogWarning
               ''Caption dropout is not supported with precomputation yet. This will be supported in the future.'']
               ?t2
             else ?t2"
  let ?t4 = "emit [Mkdir ''conditions'', Mkdir ''latents''] ?t3"
  let ?t5 = "conditions_loop P r 0 (enumerate 0 ds) ?t4"
  let ?t6 = "emit [DeleteComponents, LoadLatentModels, MoveComponentsToDevice] ?t5"
  have a: "files ?t4 = files t" by simp
  have b: "files ?t6 = files (conditions_loop P r 0 (enumerate 0 ds) ?t4)" by simp
  have c: "files (snd (prepare_precomputations a P r ds t))
               = (if should_perform_precomputation (files t) (length ds)
                  then files (latents_loop P r 0 (enumerate 0 ds) ?t6) else files t)"
    using assms by (simp add: prepare_precomputations_def Let_def)
  from a b c show ?thesis by blast
qed

lemma filter_less_Suc_length:
  "length (filter (\<lambda>i. f i < Suc k) xs)
     = length (filter (\<lambda>i. f i < k) xs) + length (filter (\<lambda>i. (f i :: nat) = k) xs)"
  by (induction xs) auto

lemma rank_precompute_counts:
  assumes a: "precompute_conditions a" "batch_size a = 1"
    and mc: "\<forall>i j. Conditions i j \<in> set fs \<longrightarrow> i mod P < k"
    and ml: "\<forall>q j. Latents q j \<in> set fs \<longrightarrow> q < k"
    and cc: "length (filter is_conditions fs) = length (filter (\<lambda>i. i mod P < k) [0..<length ds])"
    and cl: "length (filter is_latents fs) = length (filter (\<lambda>i. i mod P < k) [0..<length ds])"
  defines "fs' \<equiv> files (snd (prepare_precomputations a P k ds
                      \<lparr>files = fs, dataloader = BucketedDataset, events = []\<rparr>))"
  shows "(\<forall>i j. Conditions i j \<in> set fs' \<longrightarrow> i mod P < Suc k)
       \<and> (\<forall>q j. Latents q j \<in> set fs' \<longrightarrow> q < Suc k)
       \<and> length (filter is_conditions fs') = length (filter (\<lambda>i. i mod P < Suc k) [0..<length ds])
       \<and> length (filter is_latents fs') = length (filter (\<lambda>i. i mod P < Suc k) [0..<length ds])"
proof -
  let ?N = "length ds"
  let ?t = "\<lparr>files = fs, dataloader = BucketedDataset, events = []\<rparr>"
  from prepare_precomputations_files [OF a, of ?t P k ds]
  obtain t4 t6 where t4: "files t4 = fs"
    and t6: "files t6 = files (conditions_loop P k 0 (enumerate 0 ds) t4)"
    and res: "fs' = (if should_perform_precomputation fs ?N
                     then files (latents_loop P k 0 (enumerate 0 ds) t6) else fs)"
    unfolding fs'_def by auto
  show ?thesis
  proof (cases "should_perform_precomputation fs ?N")
    case False
    then have full: "length (filter is_conditions fs) = ?N" "length (filter is_latents fs) = ?N"
      by (simp_all add: should_perform_precomputation_def)
    have "length (filter (\<lambda>i. i mod P < Suc k) [0..<?N]) \<le> ?N"
      by (metis length_filter_le length_upt diff_zero)
    moreover have "length (filter (\<lambda>i. i mod P < k) [0..<?N])
        \<le> length (filter (\<lambda>i. i mod P < Suc k) [0..<?N])"
      by (simp add: filter_less_Suc_length)
    ultimately have "length (filter (\<lambda>i. i mod P < Suc k) [0..<?N]) = ?N"
      using full(1) cc by linarith
    with False res full mc ml show ?thesis by (auto simp: less_Suc_eq)
  next
    case True
    have pc: "\<forall>i j. Conditions i j \<in> set (files t4) \<longrightarrow> i mod P \<noteq> k \<or> i < 0"
      using mc by (auto simp: t4)
    note C = conditions_loop_files [OF pc, of 0 ds]
    have lat6: "filter is_latents (files t6) = filter is_latents fs"
      using C by (simp add: t6 t4)
    have pl: "\<forall>j. Latents k j \<in> set (files t6) \<longrightarrow> j < 0"
    proof (intro allI impI)
      fix j assume "Latents k j \<in> set (files t6)"
      then have "Latents k j \<in> set (filter is_latents (files t6))" by simp
      then have "Latents k j \<in> set fs" unfolding lat6 by simp
      with ml show "j < 0" by auto
    qed
    note L' = latents_loop_files [OF pl, of P 0 ds]
    have fs': "fs' = files (latents_loop P k 0 (enumerate 0 ds) t6)" using True res by simp
    have n: "length (filter (\<lambda>i. i mod P < Suc k) [0..<?N])
        = length (filter (\<lambda>i. i mod P < k) [0..<?N]) + length (filter (\<lambda>i. i mod P = k) [0..<?N])"
      by (rule filter_less_Suc_length)
    have c1: "length (filter is_conditions fs') = length (filter (\<lambda>i. i mod P < Suc k) [0..<?N])"
      using C L' by (simp add: fs' t6 t4 cc n)
    have c2: "length (filter is_latents fs') = length (filter (\<lambda>i. i mod P < Suc k) [0..<?N])"
      using L' by (simp add: fs' lat6 cl n)
    have m1: "i mod P < Suc k" if "Conditions i j \<in> set fs'" for i j
    proof -
      from that have "Conditions i j \<in> set (filter is_conditions fs')" by simp
      with L' have "Conditions i j \<in> set (filter is_conditions (files t6))" by (simp add: fs')
      then have "Conditions i j \<in> set (files (conditions_loop P k 0 (enumerate 0 ds) t4))"
        by (simp add: t6)
      with C have "Conditions i j \<in> set fs \<or> i mod P = k" by (auto simp: t4)
      with mc show ?thesis by (auto simp: less_Suc_eq)
    qed
    have m2: "q < Suc k" if "Latents q j \<in> set fs'" for q j
    proof -
      from that L' have "Latents q j \<in> set (files t6) \<or> q = k" by (auto simp: fs')
      then show ?thesis
      proof
        assume "Latents q j \<in> set (files t6)"
        then have "Latents q j \<in> set (filter is_latents (files t6))" by simp
        then have "Latents q j \<in> set fs" unfolding lat6 by simp
        with ml show ?thesis by (auto simp: less_Suc_eq)
      next
        assume "q = k" then show ?thesis by simp
      qed
    qed
    from m1 m2 c1 c2 show ?thesis by blast
  qed
qed

lemma all_ranks_precompute_counts:
  assumes a: "precompute_conditions a" "batch_size a = 1"
  shows "k \<le> P \<Longrightarrow>
         \<forall>i j. Conditions i j \<in> set fs \<longrightarrow> i mod P < k \<Longrightarrow>
         \<forall>q j. Latents q j \<in> set fs \<longrightarrow> q < k \<Longrightarrow>
         length (filter is_conditions fs) = length (filter (\<lambda>i. i mod P < k) [0..<length ds]) \<Longrightarrow>
         length (filter is_latents fs) = length (filter (\<lambda>i. i mod P < k) [0..<length ds]) \<Longrightarrow>
         length (filter is_conditions (all_ranks_precompute a P [k..<P] ds fs))
           = length (filter (\<lambda>i. i mod P < P) [0..<length ds])
       \<and> length (filter is_latents (all_ranks_precompute a P [k..<P] ds fs))
           = length (filter (\<lambda>i. i mod P < P) [0..<length ds])"
proof (induction "P - k" arbitrary: k fs)
  case 0
  then have "k = P" by simp
  with "0.prems" show ?case by simp
next
  case (Suc n)
  then have lt: "k < P" by simp
  then have upt: "[k..<P] = k # [Suc k..<P]" by (simp add: upt_rec)
  let ?fs' = "files (snd (prepare_precomputations a P k ds
                \<lparr>files = fs, dataloader = BucketedDataset, events = []\<rparr>))"
  from rank_precompute_counts [OF a Suc.prems(2,3,4,5)]
  have r: "\<forall>i j. Conditions i j \<in> set ?fs' \<longrightarrow> i mod P < Suc k"
    "\<forall>q j. Latents q j \<in> set ?fs' \<longrightarrow> q < Suc k"
    "length (filter is_conditions ?fs') = length (filter (\<lambda>i. i mod P < Suc k) [0..<length ds])"
    "length (filter is_latents ?fs') = length (filter (\<lambda>i. i mod P < Suc k) [0..<length ds])"
    by blast+
  have n: "n = P - Suc k" using Suc.hyps(2) by simp
  have le: "Suc k \<le> P" using lt by simp
  from Suc.hyps(1) [OF n le r] show ?case
    unfolding upt by (simp only: all_ranks_precompute.simps)
qed

text \<open>
  The consequence drawn in claim C6.  Take a data root without cached artifacts and
  let every process of a group of \<open>P\<close> run \<^verbatim>\<open>prepare_precomputations\<close> once.  The
  cache is then complete in the sense of the check, and a further invocation by
  any process returns normally after two log lines, with the directory unchanged
  and the dataloader set to the reader of the cache.
\<close>

lemma first_invocations_complete_the_cache:
  assumes "precompute_conditions a" and "batch_size a = 1" and "1 \<le> P"
  shows "\<not> should_perform_precomputation (all_ranks_precompute a P [0..<P] ds []) (length ds)"
proof -
  have "length (filter is_conditions (all_ranks_precompute a P [0..<P] ds []))
           = length (filter (\<lambda>i. i mod P < P) [0..<length ds])
       \<and> length (filter is_latents (all_ranks_precompute a P [0..<P] ds []))
           = length (filter (\<lambda>i. i mod P < P) [0..<length ds])"
    by (rule all_ranks_precompute_counts [OF assms(1,2)]) simp_all
  moreover have "filter (\<lambda>i. i mod P < P) [0..<length ds] = [0..<length ds]"
    using assms(3) by simp
  ultimately show ?thesis by (simp add: should_perform_precomputation_def)
qed

lemma second_invocation_is_a_no_op:
  assumes "precompute_conditions a" and "batch_size a = 1" and "1 \<le> P"
    and "files t = all_ranks_precompute a P [0..<P] ds []"
  shows "prepare_precomputations a P r ds t =
           (None, t\<lparr>dataloader := PrecomputedDataset 1,
                    events := events t @
                      [LogInfo ''Initializing precomputations'',
                       LogInfo ''Precomputed conditions and latents found. Loading precomputed data.'']\<rparr>)"
  using assms(1,2) first_invocations_complete_the_cache [OF assms(1,2,3), of ds]
  by (simp add: prepare_precomputations_def Let_def emit_def assms(4))

end
